theory Spec2Isabelle
  imports Complex_Main "HOL-Library.Sublist"
begin

section \<open>Common Python notions\<close>

text \<open>
  Python floats are modelled as exact reals (rounding is abstracted), Python integers as
  \<open>int\<close> or \<open>nat\<close>, text as \<open>string\<close> (a byte string: non-ASCII text is its UTF-8
  encoding). A dictionary read with \<open>d.get(k, default)\<close> is an optional field or an
  association list; \<open>None\<close> of the option type is the absent key.
\<close>

datatype py_error = KeyError | TypeError | AttributeError | OtherError

type_synonym 'v dict = "(string \<times> 'v) list"

definition dict_get :: "'v dict \<Rightarrow> string \<Rightarrow> 'v \<Rightarrow> 'v" where
  "dict_get d k dflt = (case map_of d k of None \<Rightarrow> dflt | Some v \<Rightarrow> v)"

definition dict_item :: "'v dict \<Rightarrow> string \<Rightarrow> py_error + 'v" where
  "dict_item d k = (case map_of d k of None \<Rightarrow> Inl KeyError | Some v \<Rightarrow> Inr v)"

text \<open>
  \<open>str.lower()\<close> on text in UTF-8. The ASCII capital letters become small letters,
  and so do the Cyrillic capital letters U+0400 to U+042F, which are two bytes each with
  the lead byte 0xD0: U+0410 to U+041F keep the lead byte and add 0x20 to the second
  byte, U+0420 to U+042F and U+0400 to U+040F move to the lead byte 0xD1. These are the
  cased letters of the two languages the keywords and patterns of the repository are
  written in; every other byte is kept.
\<close>

definition lower_char :: "char \<Rightarrow> char" where
  "lower_char c =
     (if (65::nat) \<le> of_char c \<and> of_char c \<le> (90::nat)
      then char_of (of_char c + (32::nat)) else c)"

fun lower :: "string \<Rightarrow> string" where
  "lower [] = []"
| "lower [c] = [lower_char c]"
| "lower (c # d # cs) =
     (let lead = (of_char c :: nat); n = (of_char d :: nat)
      in if lead = 0xD0 \<and> 0x90 \<le> n \<and> n \<le> 0x9F
         then c # char_of (n + 0x20) # lower cs
         else if lead = 0xD0 \<and> 0xA0 \<le> n \<and> n \<le> 0xAF
         then char_of (0xD1 :: nat) # char_of (n - 0x20) # lower cs
         else if lead = 0xD0 \<and> 0x80 \<le> n \<and> n \<le> 0x8F
         then char_of (0xD1 :: nat) # char_of (n + 0x10) # lower cs
         else lower_char c # lower (d # cs))"

text \<open>\<open>p in s\<close> on strings: \<open>p\<close> occurs in \<open>s\<close> as a contiguous substring.\<close>

fun contains :: "string \<Rightarrow> string \<Rightarrow> bool" where
  "contains [] p = (p = [])"
| "contains (c # cs) p = (prefix p (c # cs) \<or> contains cs p)"

text \<open>
  A \<open>datetime\<close> is a number of microseconds; \<open>(a - b).days\<close> is the floor of the
  difference in days.
\<close>

type_synonym datetime = int

definition days_between :: "datetime \<Rightarrow> datetime \<Rightarrow> int" where
  "days_between now t = (now - t) div 86400000000"

section \<open>Configuration (config.py)\<close>

definition SCAM_THRESHOLD :: real where
  "SCAM_THRESHOLD = 0.75"

definition MIN_CHANNEL_AGE_DAYS :: int where
  "MIN_CHANNEL_AGE_DAYS = 14"

text \<open>
  The scam patterns are regular-expression sources; the Cyrillic ones are given by their
  UTF-8 bytes.
\<close>

definition SCAM_PATTERNS :: "string list" where
  "SCAM_PATTERNS =
     [''(?i)100x'',
      ''(?i)1000x'',
      ''guaranteed.{0,20}profit'',
      [CHR 0xD0, CHR 0xB1, CHR 0xD0, CHR 0xB5, CHR 0xD0, CHR 0xB7] @ ''.{0,10}'' @
        [CHR 0xD1, CHR 0x80, CHR 0xD0, CHR 0xB8, CHR 0xD1, CHR 0x81, CHR 0xD0, CHR 0xBA,
         CHR 0xD0, CHR 0xB0],
      ''without.{0,10}risk'',
      ''(?i)pump.{0,5}dump'',
      ''(?i)'' @ [CHR 0xD1, CHR 0x81, CHR 0xD0, CHR 0xBA, CHR 0xD0, CHR 0xB0, CHR 0xD0, CHR 0xBC],
      ''(?i)scam.{0,5}alert'']"

section \<open>Risk aggregation (analyzer/scam\_detector.py)\<close>

subsection \<open>Token profile\<close>

text \<open>
  The \<open>created_at\<close> text of a social link either parses with
  \<open>datetime.fromisoformat\<close> to a value that can be subtracted from \<open>utcnow()\<close>, or
  raises \<open>ValueError\<close>/\<open>TypeError\<close>.
\<close>

datatype iso_stamp = BadStamp | Stamp datetime

record social =
  s_type :: "string option"
  s_description :: "string option"
  s_created_at :: "iso_stamp option"

record holder =
  h_address :: string
  h_percent :: "real option"

record jetton_details =
  d_socials :: "social list option"
  d_holders :: "holder list option"
  d_description :: "string option"
  d_ticker :: "string option"
  d_name :: "string option"
  d_short_name :: "string option"

text \<open>
  An entry of the profile dictionary: the key is absent, or it holds \<open>None\<close> (what the
  fetchers return for a failed source), or it holds a value.
\<close>

datatype 'a entry = Absent | PyNone | Val 'a

type_synonym stonfi = "(real dict) dict"

record jetton_data =
  jd_details :: "jetton_details entry"
  jd_transactions :: "unit list entry"
  jd_stonfi_data :: "stonfi entry"

datatype risk_factor =
    SuspiciousChannel string
  | RecentChannel int
  | NoHolderData
  | TopHolderOver50 real
  | TopHolderOver30 real
  | FewHolders nat
  | Top5Own real
  | NoLiquidityData
  | VeryLowLiquidity real
  | LowLiquidity real
  | NoTransactionData
  | FewTransactions nat
  | NoDescription
  | SuspiciousDescription string
  | NegativeSentiment

subsection \<open>Sub-analyzers\<close>

definition social_risks :: "datetime \<Rightarrow> social \<Rightarrow> risk_factor list" where
  "social_risks now s =
     (if s_type s = Some ''TELEGRAM'' then
        (case s_description s of
           None \<Rightarrow> []
         | Some d \<Rightarrow>
             (if d = [] then []
              else map SuspiciousChannel
                     (filter (\<lambda>p. contains (lower d) (lower p)) SCAM_PATTERNS)))
        @
        (case s_created_at s of
           None \<Rightarrow> []
         | Some BadStamp \<Rightarrow> []
         | Some (Stamp t) \<Rightarrow>
             (if days_between now t < MIN_CHANNEL_AGE_DAYS
              then [RecentChannel (days_between now t)] else []))
      else [])"

definition check_fake_channel :: "datetime \<Rightarrow> social list \<Rightarrow> bool \<times> risk_factor list" where
  "check_fake_channel now socials =
     (let risk_factors = concat (map (social_risks now) socials)
      in (length risk_factors > 0, risk_factors))"

definition percent_of :: "holder \<Rightarrow> real" where
  "percent_of h = (case h_percent h of None \<Rightarrow> 0 | Some p \<Rightarrow> p)"

definition analyze_holders :: "holder list \<Rightarrow> real \<times> risk_factor list" where
  "analyze_holders holders =
     (case holders of
        [] \<Rightarrow> (0.5, [NoHolderData])
      | h0 # _ \<Rightarrow>
          (let (s1, f1) =
                 (if percent_of h0 > 50 then (0.95, [TopHolderOver50 (percent_of h0)])
                  else if percent_of h0 > 30 then (0.7, [TopHolderOver30 (percent_of h0)])
                  else (0.0, []));
               (s2, f2) =
                 (if length holders < 10
                  then (max s1 0.6, f1 @ [FewHolders (length holders)])
                  else (s1, f1));
               top5_percent = sum_list (map percent_of (take 5 holders))
           in if top5_percent > 90
              then (max s2 0.8, f2 @ [Top5Own top5_percent])
              else (s2, f2)))"

definition analyze_liquidity :: "stonfi entry \<Rightarrow> real \<times> risk_factor list" where
  "analyze_liquidity stonfi_data =
     (case stonfi_data of
        Absent \<Rightarrow> (0.5, [NoLiquidityData])
      | PyNone \<Rightarrow> (0.5, [NoLiquidityData])
      | Val d \<Rightarrow>
          (if d = [] then (0.5, [NoLiquidityData])
           else let liquidity = dict_get (dict_get d ''liquidity'' []) ''usd'' 0
                in if liquidity < 1000 then (0.8, [VeryLowLiquidity liquidity])
                   else if liquidity < 5000 then (0.5, [LowLiquidity liquidity])
                   else (0.0, [])))"

definition analyze_transactions :: "unit list \<Rightarrow> real \<times> risk_factor list" where
  "analyze_transactions transactions =
     (if transactions = [] then (0.5, [NoTransactionData])
      else if length transactions < 5 then (0.6, [FewTransactions (length transactions)])
      else (0.0, []))"

text \<open>
  The sentiment classifier is optional (\<open>None\<close>: it failed to load); called on a text it
  returns a label and a score, or raises.
\<close>

type_synonym nlp_pipeline = "string \<Rightarrow> py_error + (string \<times> real)"

definition first_pattern :: "string \<Rightarrow> string option" where
  "first_pattern description =
     (case filter (\<lambda>p. contains (lower description) (lower p)) SCAM_PATTERNS of
        [] \<Rightarrow> None | p # _ \<Rightarrow> Some p)"

definition analyze_description ::
  "nlp_pipeline option \<Rightarrow> string \<Rightarrow> real \<times> risk_factor list" where
  "analyze_description nlp description =
     (if description = [] then (0.5, [NoDescription])
      else
        let (s1, f1) =
              (case first_pattern description of
                 None \<Rightarrow> (0.0, [])
               | Some p \<Rightarrow> (0.7, [SuspiciousDescription p]))
        in case nlp of
             None \<Rightarrow> (s1, f1)
           | Some pipeline \<Rightarrow>
               (case pipeline (take 512 description) of
                  Inl e \<Rightarrow> (s1, f1)
                | Inr (label, score) \<Rightarrow>
                    (if label = ''1 star'' \<and> score > 0.7
                     then (max s1 0.6, f1 @ [NegativeSentiment])
                     else (s1, f1))))"

subsection \<open>Aggregation\<close>

record analysis =
  is_scam :: bool
  scam_score :: real
  risk_factors :: "risk_factor list"

definition empty_details :: jetton_details where
  "empty_details =
     \<lparr>d_socials = None, d_holders = None, d_description = None,
      d_ticker = None, d_name = None, d_short_name = None\<rparr>"

definition opt_list :: "'a list option \<Rightarrow> 'a list" where
  "opt_list x = (case x of None \<Rightarrow> [] | Some xs \<Rightarrow> xs)"

text \<open>
  The list \<open>risk_scores\<close> as \<open>analyze_jetton\<close> builds it: 0.8 for the channel check only
  when a channel was flagged, then the four other sub-scores.
\<close>

definition risk_scores_of ::
  "datetime \<Rightarrow> nlp_pipeline option \<Rightarrow> jetton_details \<Rightarrow> unit list \<Rightarrow> stonfi entry \<Rightarrow> real list" where
  "risk_scores_of now nlp details transactions stonfi_data =
     (if fst (check_fake_channel now (opt_list (d_socials details))) then [0.8] else [])
     @ [fst (analyze_holders (opt_list (d_holders details))),
        fst (analyze_liquidity stonfi_data),
        fst (analyze_transactions transactions),
        fst (analyze_description nlp (opt_list (d_description details)))]"

definition risk_factors_of ::
  "datetime \<Rightarrow> nlp_pipeline option \<Rightarrow> jetton_details \<Rightarrow> unit list \<Rightarrow> stonfi entry
     \<Rightarrow> risk_factor list" where
  "risk_factors_of now nlp details transactions stonfi_data =
     (if fst (check_fake_channel now (opt_list (d_socials details)))
      then snd (check_fake_channel now (opt_list (d_socials details))) else [])
     @ snd (analyze_holders (opt_list (d_holders details)))
     @ snd (analyze_liquidity stonfi_data)
     @ snd (analyze_transactions transactions)
     @ snd (analyze_description nlp (opt_list (d_description details)))"

text \<open>
  \<open>jetton_data.get("details", {})\<close> and \<open>jetton_data.get("transactions", [])\<close>: the
  default stands in for an absent key only.
\<close>

definition details_in :: "jetton_data \<Rightarrow> jetton_details" where
  "details_in jd = (case jd_details jd of Val d \<Rightarrow> d | _ \<Rightarrow> empty_details)"

definition transactions_in :: "jetton_data \<Rightarrow> unit list" where
  "transactions_in jd = (case jd_transactions jd of Val ts \<Rightarrow> ts | _ \<Rightarrow> [])"

text \<open>
  When the \<open>details\<close> key holds \<open>None\<close>, \<open>details.get\<close> raises \<open>AttributeError\<close>;
  \<open>analyze_jetton\<close> has no handler.
\<close>

definition analyze_jetton ::
  "datetime \<Rightarrow> nlp_pipeline option \<Rightarrow> jetton_data \<Rightarrow> py_error + analysis" where
  "analyze_jetton now nlp jd =
     (if jd_details jd = PyNone then Inl AttributeError
      else
        let details = details_in jd;
            transactions = transactions_in jd;
            stonfi_data = jd_stonfi_data jd;
            risk_scores = risk_scores_of now nlp details transactions stonfi_data;
            final_score =
              (if risk_scores \<noteq> []
               then sum_list risk_scores / real (length risk_scores)
               else 0.5)
        in Inr \<lparr>is_scam = (final_score \<ge> SCAM_THRESHOLD),
                scam_score = final_score,
                risk_factors = risk_factors_of now nlp details transactions stonfi_data\<rparr>)"

subsection \<open>Scenario profiles\<close>

definition mk_holders :: "real list \<Rightarrow> holder list" where
  "mk_holders ps = map (\<lambda>p. \<lparr>h_address = [], h_percent = Some p\<rparr>) ps"

text \<open>
  A profile with holder percentages 60, 20, 5, 5, 5, no social links, the given liquidity
  in USD, the given number of transactions and the given description.
\<close>

definition profile :: "real \<Rightarrow> nat \<Rightarrow> string option \<Rightarrow> jetton_data" where
  "profile liq ntx desc =
     \<lparr>jd_details = Val \<lparr>d_socials = None,
                         d_holders = Some (mk_holders [60, 20, 5, 5, 5]),
                         d_description = desc,
                         d_ticker = None, d_name = None, d_short_name = None\<rparr>,
      jd_transactions = Val (replicate ntx ()),
      jd_stonfi_data = Val [(''liquidity'', [(''usd'', liq)])]\<rparr>"

section \<open>Entity extraction (telegram/spider.py)\<close>

subsection \<open>Channel-link patterns\<close>

text \<open>
  Every entry of \<open>TELEGRAM_LINK_PATTERNS\<close> has the shape: an optional scheme
  \<open>(?:https?://)?\<close> (or none), a literal, and one capturing group, a character class
  repeated greedily at least a given number of times.
\<close>

definition word_char :: "char \<Rightarrow> bool" where
  "word_char c =
     (let n = (of_char c :: nat)
      in (97 \<le> n \<and> n \<le> 122) \<or> (65 \<le> n \<and> n \<le> 90) \<or> (48 \<le> n \<and> n \<le> 57) \<or> n = 95)"

definition word_dash_char :: "char \<Rightarrow> bool" where
  "word_dash_char c = (word_char c \<or> c = CHR ''-'')"

record link_pattern =
  lp_scheme :: bool
  lp_literal :: string
  lp_class :: "char \<Rightarrow> bool"
  lp_min :: nat

definition TELEGRAM_LINK_PATTERNS :: "link_pattern list" where
  "TELEGRAM_LINK_PATTERNS =
     [\<lparr>lp_scheme = True, lp_literal = ''t.me/'', lp_class = word_char, lp_min = 1\<rparr>,
      \<lparr>lp_scheme = False, lp_literal = ''@'', lp_class = word_char, lp_min = 5\<rparr>,
      \<lparr>lp_scheme = True, lp_literal = ''t.me/+'', lp_class = word_dash_char, lp_min = 1\<rparr>,
      \<lparr>lp_scheme = True, lp_literal = ''t.me/joinchat/'', lp_class = word_dash_char,
       lp_min = 1\<rparr>]"

text \<open>\<open>https?://\<close> at the start of the text: the rest of the text and the length matched.\<close>

definition match_scheme :: "string \<Rightarrow> (string \<times> nat) option" where
  "match_scheme s =
     (if prefix ''https://'' s then Some (drop 8 s, 8)
      else if prefix ''http://'' s then Some (drop 7 s, 7)
      else None)"

text \<open>
  The literal and the group at the start of the text: the captured group and the length
  matched. The class repetition is greedy and nothing follows it, so it takes the longest
  run.
\<close>

definition match_body :: "link_pattern \<Rightarrow> string \<Rightarrow> (string \<times> nat) option" where
  "match_body p s =
     (if prefix (lp_literal p) s then
        (let g = takeWhile (lp_class p) (drop (length (lp_literal p)) s)
         in if lp_min p \<le> length g then Some (g, length (lp_literal p) + length g)
            else None)
      else None)"

text \<open>
  A match starting at the first character: with the scheme first; when that fails the
  optional scheme is given up and the body is tried alone.
\<close>

definition match_at :: "link_pattern \<Rightarrow> string \<Rightarrow> (string \<times> nat) option" where
  "match_at p s =
     (if lp_scheme p then
        (case match_scheme s of
           None \<Rightarrow> match_body p s
         | Some (rest, k) \<Rightarrow>
             (case match_body p rest of
                None \<Rightarrow> match_body p s
              | Some (g, n) \<Rightarrow> Some (g, k + n)))
      else match_body p s)"

text \<open>
  \<open>re.findall\<close> with one group: the groups of the non-overlapping matches, scanning
  from the left; after a match the scan resumes behind it (the first argument counts
  the characters still to skip).
\<close>

fun findall_from :: "link_pattern \<Rightarrow> nat \<Rightarrow> string \<Rightarrow> string list" where
  "findall_from p k [] = []"
| "findall_from p (Suc k) (c # cs) = findall_from p k cs"
| "findall_from p 0 (c # cs) =
     (case match_at p (c # cs) of
        None \<Rightarrow> findall_from p 0 cs
      | Some (g, n) \<Rightarrow> g # findall_from p (n - 1) cs)"

definition findall :: "link_pattern \<Rightarrow> string \<Rightarrow> string list" where
  "findall p text = findall_from p 0 text"

text \<open>
  \<open>_extract_channel_links\<close> returns \<open>list(set(channel_names))\<close>: the distinct names, in
  an order Python does not specify; the model lists them in order of first occurrence.
\<close>

definition extract_channel_links :: "string \<Rightarrow> string list" where
  "extract_channel_links text =
     remdups (concat (map (\<lambda>pattern. findall pattern text) TELEGRAM_LINK_PATTERNS))"

section \<open>Channel relevance (telegram/spider.py, models/db.py)\<close>

definition TOKEN_KEYWORDS :: "string list" where
  "TOKEN_KEYWORDS =
     [''jetton'',
      [CHR 0xD1, CHR 0x82, CHR 0xD0, CHR 0xBE, CHR 0xD0, CHR 0xBA, CHR 0xD0, CHR 0xB5, CHR 0xD0,
       CHR 0xBD],
      ''token'',
      [CHR 0xD0, CHR 0xB1, CHR 0xD0, CHR 0xBB, CHR 0xD1, CHR 0x8E, CHR 0xD0, CHR 0xBC],
      [CHR 0xD0, CHR 0xB1, CHR 0xD0, CHR 0xBB, CHR 0xD1, CHR 0x83, CHR 0xD0, CHR 0xBC],
      ''blum'',
      ''memepad'',
      ''airdrop'',
      [CHR 0xD0, CHR 0xB4, CHR 0xD1, CHR 0x80, CHR 0xD0, CHR 0xBE, CHR 0xD0, CHR 0xBF],
      [CHR 0xD1, CHR 0x8D, CHR 0xD0, CHR 0xB8, CHR 0xD1, CHR 0x80, CHR 0xD0, CHR 0xB4, CHR 0xD1,
       CHR 0x80, CHR 0xD0, CHR 0xBE, CHR 0xD0, CHR 0xBF],
      ''TON'',
      [CHR 0xD1, CHR 0x82, CHR 0xD0, CHR 0xBE, CHR 0xD0, CHR 0xBD]]"

text \<open>\<open>RELEVANCE_FACTORS\<close> as config.py defines it.\<close>

definition RELEVANCE_FACTORS :: "real dict" where
  "RELEVANCE_FACTORS =
     [(''token_mentions'', 0.4),
      (''members_count'', 0.2),
      (''activity'', 0.15),
      (''description_relevance'', 0.15),
      (''age'', 0.1)]"

text \<open>
  A row of \<open>TelegramChannel\<close>, with the columns the spider reads or writes; a nullable
  column is an option.
\<close>

record telegram_channel =
  ch_channel_id :: string
  ch_username :: "string option"
  ch_title :: "string option"
  ch_description :: "string option"
  ch_members_count :: "int option"
  ch_created_at :: "datetime option"
  ch_last_scanned_at :: "datetime option"
  ch_is_active :: bool
  ch_relevance_score :: real
  ch_token_mentions_count :: "int option"
  ch_source :: "string option"
  ch_source_details :: "string option"

definition bind_err :: "'e + 'a \<Rightarrow> ('a \<Rightarrow> 'e + 'b) \<Rightarrow> 'e + 'b" where
  "bind_err m f = (case m of Inl e \<Rightarrow> Inl e | Inr x \<Rightarrow> f x)"

definition keyword_matches :: "string \<Rightarrow> nat" where
  "keyword_matches description =
     length (filter (\<lambda>keyword. contains (lower description) (lower keyword)) TOKEN_KEYWORDS)"

definition age_band :: "int \<Rightarrow> real" where
  "age_band age_days =
     (if age_days < 7 then 0.2
      else if age_days < 30 then 0.5
      else if age_days < 365 then 0.9
      else 0.7)"

text \<open>
  The body of the \<open>try\<close> block of \<open>update_channel_relevance\<close>: the new score, or the
  exception raised on the way (\<open>KeyError\<close> for a weight the table lacks, \<open>TypeError\<close>
  for arithmetic on \<open>None\<close>). A weight is looked up only on the branch that uses it.
\<close>

definition relevance_sum :: "real dict \<Rightarrow> datetime \<Rightarrow> telegram_channel \<Rightarrow> py_error + real" where
  "relevance_sum factors now channel =
     bind_err (case ch_token_mentions_count channel of
                 None \<Rightarrow> Inl TypeError
               | Some n \<Rightarrow> Inr (min 1.0 (real_of_int n / 10))) (\<lambda>mentions.
     bind_err (dict_item factors ''token_mentions'') (\<lambda>w_mentions.
     bind_err (dict_item factors ''members_count'') (\<lambda>w_members.
     bind_err (case ch_last_scanned_at channel of
                 None \<Rightarrow> Inr 0.5
               | Some t \<Rightarrow>
                   bind_err (dict_item factors ''activity'') (\<lambda>w.
                     Inr (max 0.1 (1.0 - real_of_int (days_between now t) / 30) * w)))
       (\<lambda>activity_score.
     bind_err (case ch_description channel of
                 None \<Rightarrow> Inr 0.5
               | Some d \<Rightarrow>
                   if d = [] then Inr 0.5
                   else bind_err (dict_item factors ''description'') (\<lambda>w.
                          Inr (min 1.0 (real (keyword_matches d) / 5) * w)))
       (\<lambda>description_score.
     bind_err (case ch_created_at channel of
                 None \<Rightarrow> Inr 0.5
               | Some t \<Rightarrow>
                   bind_err (dict_item factors ''age'') (\<lambda>w.
                     Inr (age_band (days_between now t) * w)))
       (\<lambda>age_score.
     (let members_count = (case ch_members_count channel of None \<Rightarrow> 0 | Some m \<Rightarrow> m);
          token_mentions_score = mentions * w_mentions;
          members_score = min 1.0 (real_of_int members_count / 10000) * w_members
      in Inr (token_mentions_score + members_score + activity_score + description_score
                + age_score))))))))"

text \<open>
  \<open>update_channel_relevance\<close>: the channel after the call and the value returned. Any
  exception in the body is caught and logged; the stored score is then returned
  unchanged.
\<close>

definition update_channel_relevance ::
  "real dict \<Rightarrow> datetime \<Rightarrow> telegram_channel \<Rightarrow> telegram_channel \<times> real" where
  "update_channel_relevance factors now channel =
     (case relevance_sum factors now channel of
        Inl e \<Rightarrow> (channel, ch_relevance_score channel)
      | Inr relevance_score \<Rightarrow>
          (channel\<lparr>ch_relevance_score := relevance_score\<rparr>, relevance_score))"

subsection \<open>Scenario channel\<close>

definition day :: int where
  "day = 86400000000"

text \<open>
  At time \<open>100 * day\<close>: a channel with 12 token mentions, 500 members, last scanned
  5 days ago, created 90 days ago, a description with five keyword hits, and a stored
  relevance of 0.5.
\<close>

definition scenario_channel :: telegram_channel where
  "scenario_channel =
     \<lparr>ch_channel_id = ''1001'',
      ch_username = Some ''cryptoton_news'',
      ch_title = Some ''Cryptoton'',
      ch_description = Some ''TON jetton token airdrop on memepad'',
      ch_members_count = Some 500,
      ch_created_at = Some (10 * day),
      ch_last_scanned_at = Some (95 * day),
      ch_is_active = True,
      ch_relevance_score = 0.5,
      ch_token_mentions_count = Some 12,
      ch_source = Some ''initial'',
      ch_source_details = None\<rparr>"

text \<open>The weights of the claim, under the keys the routine reads.\<close>

definition scenario_factors :: "real dict" where
  "scenario_factors =
     [(''token_mentions'', 0.4),
      (''members_count'', 0.2),
      (''activity'', 0.15),
      (''description'', 0.15),
      (''age'', 0.1)]"

section \<open>Mapped objects (models/db.py)\<close>

text \<open>
  \<open>PotentialToken\<close> and \<open>TelegramMessage\<close> are used with attribute names that their
  classes do not declare, so their instances are modelled as Python has them: the
  attributes set on the instance so far. Reading a declared column that was never set
  gives \<open>None\<close>; reading any other name that was never set raises \<open>AttributeError\<close>;
  any name can be assigned. The constructor of a declarative class accepts only keyword
  arguments that name attributes of the class and raises \<open>TypeError\<close> for any other.
\<close>

datatype py_value = PNone | PBool bool | PInt int | PFloat real | PStr string | PTime datetime

type_synonym py_object = "py_value dict"

definition PotentialToken_columns :: "string list" where
  "PotentialToken_columns =
     [''id'', ''name'', ''ticker'', ''description'', ''source_message_id'',
      ''source_chat_id'', ''found_timestamp'', ''confidence_score'', ''processed'',
      ''jetton_id'']"

definition TelegramMessage_columns :: "string list" where
  "TelegramMessage_columns =
     [''id'', ''message_id'', ''chat_id'', ''sender_id'', ''text'', ''timestamp'',
      ''has_token_mention'']"

definition getattr :: "string list \<Rightarrow> py_object \<Rightarrow> string \<Rightarrow> py_error + py_value" where
  "getattr columns obj a =
     (case map_of obj a of
        Some v \<Rightarrow> Inr v
      | None \<Rightarrow> if a \<in> set columns then Inr PNone else Inl AttributeError)"

definition setattr :: "py_object \<Rightarrow> string \<Rightarrow> py_value \<Rightarrow> py_object" where
  "setattr obj a v = (a, v) # filter (\<lambda>kv. fst kv \<noteq> a) obj"

definition declarative_init :: "string list \<Rightarrow> py_value dict \<Rightarrow> py_error + py_object" where
  "declarative_init columns kwargs =
     (if list_all (\<lambda>kv. fst kv \<in> set columns) kwargs then Inr kwargs else Inl TypeError)"

text \<open>\<open>x += 1\<close> and the numeric reading of a value (\<open>bool\<close> is a subtype of \<open>int\<close>).\<close>

definition py_incr :: "py_value \<Rightarrow> py_error + py_value" where
  "py_incr v =
     (case v of
        PInt n \<Rightarrow> Inr (PInt (n + 1))
      | PFloat r \<Rightarrow> Inr (PFloat (r + 1))
      | PBool b \<Rightarrow> Inr (PInt ((if b then 1 else 0) + 1))
      | _ \<Rightarrow> Inl TypeError)"

definition as_number :: "py_value \<Rightarrow> py_error + real" where
  "as_number v =
     (case v of
        PInt n \<Rightarrow> Inr (real_of_int n)
      | PFloat r \<Rightarrow> Inr r
      | PBool b \<Rightarrow> Inr (if b then 1 else 0)
      | _ \<Rightarrow> Inl TypeError)"

section \<open>Candidate tokens (telegram/spider.py, main.py)\<close>

text \<open>The confidence of a candidate, read as a number.\<close>

definition confidence_of :: "py_object \<Rightarrow> py_error + real" where
  "confidence_of token =
     bind_err (getattr PotentialToken_columns token ''confidence_score'') as_number"

definition token_named :: "string \<Rightarrow> py_object \<Rightarrow> bool" where
  "token_named token_name tok =
     (getattr PotentialToken_columns tok ''name'' = Inr (PStr token_name))"

text \<open>\<open>session.query(PotentialToken).filter_by(name=token_name).first()\<close>: the position
  of the first row with that name.\<close>

definition first_token_named :: "string \<Rightarrow> py_object list \<Rightarrow> nat option" where
  "first_token_named token_name tokens =
     (case filter (\<lambda>i. token_named token_name (tokens ! i)) [0..<length tokens] of
        [] \<Rightarrow> None
      | i # _ \<Rightarrow> Some i)"

text \<open>
  The update of an existing candidate (lines 378 to 382 of \<open>_process_message\<close>): the
  object as the statements leave it, and the exception if one is raised.
\<close>

definition mention_existing :: "datetime \<Rightarrow> py_object \<Rightarrow> (py_error + unit) \<times> py_object" where
  "mention_existing now existing_token =
     (case bind_err (getattr PotentialToken_columns existing_token ''mention_count'') py_incr of
        Inl e \<Rightarrow> (Inl e, existing_token)
      | Inr count \<Rightarrow>
          (let t1 = setattr existing_token ''mention_count'' count;
               t2 = setattr t1 ''last_mentioned_at'' (PTime now)
           in case confidence_of t2 of
                Inl e \<Rightarrow> (Inl e, t2)
              | Inr confidence \<Rightarrow>
                  (Inr (), setattr t2 ''confidence_score'' (PFloat (min 1.0 (confidence + 0.1))))))"

text \<open>
  The candidate tracking of \<open>_process_message\<close> (lines 371 to 391) on the table of
  candidates: the candidate returned, or the exception, and the table afterwards. The
  list of names is not empty here.
\<close>

definition track_candidate ::
  "datetime \<Rightarrow> string list \<Rightarrow> string \<Rightarrow> py_object list
     \<Rightarrow> (py_error + py_object) \<times> py_object list" where
  "track_candidate now potential_token_names message_text tokens =
     (let token_name = hd potential_token_names
      in case first_token_named token_name tokens of
           Some i \<Rightarrow>
             (case mention_existing now (tokens ! i) of
                (Inl e, tok) \<Rightarrow> (Inl e, tokens[i := tok])
              | (Inr u, tok) \<Rightarrow> (Inr tok, tokens[i := tok]))
         | None \<Rightarrow>
             (case declarative_init PotentialToken_columns
                     [(''name'', PStr token_name),
                      (''description'', PStr message_text),
                      (''confidence_score'', PFloat 0.3)] of
                Inl e \<Rightarrow> (Inl e, tokens)
              | Inr new_token \<Rightarrow> (Inr new_token, tokens @ [new_token])))"

subsection \<open>Reconciliation (main.py, check\_external\_tokens)\<close>

datatype event =
    SearchGlobal string
  | Sleep nat
  | JoinRequest string
  | ChannelAlert string
  | TokenAlert py_object
  | SessionCommit

text \<open>Lines 116 and 117: the candidate found on the marketplace.\<close>

definition reconcile :: "py_object \<Rightarrow> py_object" where
  "reconcile token =
     setattr (setattr token ''found_on_memepad'' (PBool True)) ''confidence_score'' (PFloat 0.9)"

text \<open>
  One round of the loop over the candidates (lines 99 to 123). The lookup in the
  \<open>Jetton\<close> table and \<open>memepad_parser.search_token\<close>, which no file of the repository
  defines, are parameters: \<open>jetton_exists\<close> answers for a name, \<open>search_token\<close> answers
  or raises. The result is the candidate afterwards and the events of the round, or the
  exception that ends the whole function.
\<close>

definition check_token ::
  "(py_value \<Rightarrow> bool) \<Rightarrow> (py_value \<Rightarrow> py_error + bool) \<Rightarrow> py_object
     \<Rightarrow> py_error + (py_object \<times> event list)" where
  "check_token jetton_exists search_token token =
     bind_err (getattr PotentialToken_columns token ''name'') (\<lambda>name.
       if jetton_exists name then Inr (token, [])
       else
         bind_err (search_token name) (\<lambda>found_on_memepad.
           if found_on_memepad then Inr (reconcile token, [SessionCommit])
           else
             bind_err (confidence_of token) (\<lambda>confidence.
               if confidence > 0.5 then Inr (token, [TokenAlert token])
               else Inr (token, []))))"

text \<open>
  The loop: candidates are handled in order; an exception is caught by the handler
  of \<open>check_external_tokens\<close>, which logs it and returns, leaving the later candidates
  as they are.
\<close>

fun check_tokens ::
  "(py_value \<Rightarrow> bool) \<Rightarrow> (py_value \<Rightarrow> py_error + bool) \<Rightarrow> py_object list
     \<Rightarrow> py_object list \<times> event list" where
  "check_tokens jetton_exists search_token [] = ([], [])"
| "check_tokens jetton_exists search_token (token # rest) =
     (case check_token jetton_exists search_token token of
        Inl e \<Rightarrow> (token # rest, [])
      | Inr (token', events) \<Rightarrow>
          (let (rest', events') = check_tokens jetton_exists search_token rest
           in (token' # rest', events @ events')))"

text \<open>A candidate that was mentioned before and has reached the confidence 1.0, if
  instances carried a mention count.\<close>

definition full_token :: py_object where
  "full_token =
     [(''name'', PStr ''FOO''),
      (''description'', PStr ''airdrop FOO''),
      (''mention_count'', PInt 7),
      (''confidence_score'', PFloat 1.0)]"

section \<open>The spider and its session (telegram/spider.py)\<close>

subsection \<open>Configuration\<close>

datatype cfg_value = CBool bool | CInt int | CFloat real

text \<open>\<open>CHANNEL_DISCOVERY\<close> as config.py defines it.\<close>

definition CHANNEL_DISCOVERY :: "cfg_value dict" where
  "CHANNEL_DISCOVERY =
     [(''enabled'', CBool True),
      (''max_channels_per_run'', CInt 5),
      (''min_relevance_score'', CFloat 0.6),
      (''max_monitored_channels'', CInt 50),
      (''scan_frequency_hours'', CInt 6),
      (''cleanup_frequency_days'', CInt 7)]"

definition cfg_truthy :: "cfg_value \<Rightarrow> bool" where
  "cfg_truthy v = (case v of CBool b \<Rightarrow> b | CInt n \<Rightarrow> n \<noteq> 0 | CFloat r \<Rightarrow> r \<noteq> 0)"

definition cfg_num :: "cfg_value \<Rightarrow> real" where
  "cfg_num v =
     (case v of CBool b \<Rightarrow> (if b then 1 else 0) | CInt n \<Rightarrow> real_of_int n | CFloat r \<Rightarrow> r)"

definition MONITORED_CHANNELS :: "string list" where
  "MONITORED_CHANNELS =
     [''tonblum'', ''memescope'', ''ton_diamonds'', ''toncoin_rus'', ''tonx_dev'',
      ''stTON_chat'']"

definition CHANNEL_SEARCH_KEYWORDS :: "string list" where
  "CHANNEL_SEARCH_KEYWORDS =
     [''TON'', ''toncoin'', ''ton crypto'', ''ton blockchain'', ''jetton'', ''memepad'',
      ''meme coin'',
      [CHR 0xD0, CHR 0xB1, CHR 0xD0, CHR 0xBB, CHR 0xD1, CHR 0x8E, CHR 0xD0, CHR 0xBC],
      [CHR 0xD0, CHR 0xB1, CHR 0xD0, CHR 0xBB, CHR 0xD1, CHR 0x83, CHR 0xD0, CHR 0xBC],
      ''tonblum'', ''ton diamond'', ''tonx'']"

subsection \<open>The chat platform\<close>

text \<open>
  The calls to the Telegram client are parameters. The answer to a global search may
  depend on everything the spider did before (the log of events), so that a rate limit
  can be lifted after a wait.
\<close>

datatype search_reply =
    Chats "string option list"
  | FloodWait nat
  | SearchError

datatype probe_reply = ProbeOk | ProbeDenied | ProbeError

record channel_info =
  ci_id :: string
  ci_title :: "string option"
  ci_about :: "string option"
  ci_participants :: "int option"
  ci_date :: "datetime option"

record chat_entity =
  e_id :: string
  e_title :: "string option"

record message =
  m_id :: int
  m_text :: "string option"
  m_sender_id :: string
  m_date :: datetime

record telegram =
  tg_connect :: bool
  tg_search :: "event list \<Rightarrow> string \<Rightarrow> search_reply"
  tg_channel_info :: "string \<Rightarrow> channel_info option"
  tg_get_entity :: "string \<Rightarrow> chat_entity option"
  tg_probe :: "string \<Rightarrow> probe_reply"
  tg_join :: "string \<Rightarrow> bool"
  tg_messages :: "string \<Rightarrow> message list option"

subsection \<open>Session and spider state\<close>

text \<open>
  The tables as the session sees them and as they were last committed;
  \<open>session.commit()\<close> saves the first into the second, \<open>session.rollback()\<close> restores
  the first from the second.
\<close>

record tables =
  db_channels :: "telegram_channel list"
  db_tokens :: "py_object list"
  db_messages :: "py_object list"

record world =
  w_db :: tables
  w_committed :: tables
  w_active :: "string list"
  w_client :: bool
  w_log :: "event list"

definition commit :: "world \<Rightarrow> world" where
  "commit w = w\<lparr>w_committed := w_db w\<rparr>"

definition rollback :: "world \<Rightarrow> world" where
  "rollback w = w\<lparr>w_db := w_committed w\<rparr>"

definition emit :: "event \<Rightarrow> world \<Rightarrow> world" where
  "emit e w = w\<lparr>w_log := w_log w @ [e]\<rparr>"

definition set_channels :: "telegram_channel list \<Rightarrow> world \<Rightarrow> world" where
  "set_channels cs w = w\<lparr>w_db := (w_db w)\<lparr>db_channels := cs\<rparr>\<rparr>"

definition set_tokens :: "py_object list \<Rightarrow> world \<Rightarrow> world" where
  "set_tokens ts w = w\<lparr>w_db := (w_db w)\<lparr>db_tokens := ts\<rparr>\<rparr>"

definition add_message :: "py_object \<Rightarrow> world \<Rightarrow> world" where
  "add_message m w = w\<lparr>w_db := (w_db w)\<lparr>db_messages := db_messages (w_db w) @ [m]\<rparr>\<rparr>"

text \<open>The position of the first row that satisfies a condition.\<close>

definition first_index :: "('a \<Rightarrow> bool) \<Rightarrow> 'a list \<Rightarrow> nat option" where
  "first_index P xs =
     (case filter (\<lambda>i. P (xs ! i)) [0..<length xs] of [] \<Rightarrow> None | i # _ \<Rightarrow> Some i)"

subsection \<open>Registering channels\<close>

definition add_channel_to_db ::
  "telegram \<Rightarrow> string \<Rightarrow> string option \<Rightarrow> string option \<Rightarrow> world
     \<Rightarrow> telegram_channel option \<times> world" where
  "add_channel_to_db tg channel_name source source_details w =
     (case find (\<lambda>c. ch_username c = Some channel_name) (db_channels (w_db w)) of
        Some existing_channel \<Rightarrow> (Some existing_channel, w)
      | None \<Rightarrow>
          (case tg_channel_info tg channel_name of
             None \<Rightarrow> (None, w)
           | Some info \<Rightarrow>
               (let new_channel =
                      \<lparr>ch_channel_id = ci_id info,
                       ch_username = Some channel_name,
                       ch_title = Some (case ci_title info of None \<Rightarrow> channel_name | Some t \<Rightarrow> t),
                       ch_description = ci_about info,
                       ch_members_count = ci_participants info,
                       ch_created_at = ci_date info,
                       ch_last_scanned_at = None,
                       ch_is_active = True,
                       ch_relevance_score = 0.5,
                       ch_token_mentions_count = Some 0,
                       ch_source = source,
                       ch_source_details = source_details\<rparr>
                in (Some new_channel,
                    commit (set_channels (db_channels (w_db w) @ [new_channel]) w)))))"

fun add_initial_channels :: "telegram \<Rightarrow> string list \<Rightarrow> world \<Rightarrow> world" where
  "add_initial_channels tg [] w = w"
| "add_initial_channels tg (channel_name # rest) w =
     add_initial_channels tg rest
       (snd (add_channel_to_db tg channel_name (Some ''initial'') None w))"

definition usernames_of :: "telegram_channel list \<Rightarrow> string list" where
  "usernames_of channels =
     concat (map (\<lambda>c. case ch_username c of
                          None \<Rightarrow> []
                        | Some u \<Rightarrow> if u = [] then [] else [u]) channels)"

definition load_active_channels :: "cfg_value dict \<Rightarrow> telegram \<Rightarrow> world \<Rightarrow> world" where
  "load_active_channels cfg tg w =
     (case dict_item cfg ''min_relevance_score'' of
        Inl e \<Rightarrow> w\<lparr>w_active := MONITORED_CHANNELS\<rparr>
      | Inr threshold \<Rightarrow>
          (let channels =
                 filter (\<lambda>c. ch_is_active c \<and> ch_relevance_score c \<ge> cfg_num threshold)
                   (db_channels (w_db w))
           in if channels \<noteq> [] then w\<lparr>w_active := usernames_of channels\<rparr>
              else add_initial_channels tg MONITORED_CHANNELS
                     (w\<lparr>w_active := MONITORED_CHANNELS\<rparr>)))"

definition connect :: "cfg_value dict \<Rightarrow> telegram \<Rightarrow> world \<Rightarrow> bool \<times> world" where
  "connect cfg tg w =
     (if tg_connect tg then (True, load_active_channels cfg tg (w\<lparr>w_client := True\<rparr>))
      else (False, w\<lparr>w_client := True\<rparr>))"

subsection \<open>Keyword search\<close>

text \<open>
  The inner loop over \<open>results.chats\<close> for one keyword: the names found so far and the
  world.
\<close>

fun register_found ::
  "telegram \<Rightarrow> string \<Rightarrow> string option list \<Rightarrow> string list \<times> world \<Rightarrow> string list \<times> world"
  where
  "register_found tg keyword [] st = st"
| "register_found tg keyword (None # results) st = register_found tg keyword results st"
| "register_found tg keyword (Some channel_name # results) (found_channels, w) =
     (if channel_name = [] \<or> channel_name \<in> set found_channels
      then register_found tg keyword results (found_channels, w)
      else
        (let (channel_db, w1) =
               add_channel_to_db tg channel_name (Some ''keyword_search'')
                 (Some (''keyword: '' @ keyword)) w;
             w2 = (if channel_db \<noteq> None \<and> channel_name \<notin> set (w_active w1)
                   then w1\<lparr>w_active := w_active w1 @ [channel_name]\<rparr> else w1)
         in register_found tg keyword results (found_channels @ [channel_name], w2)))"

text \<open>
  The loop over the keywords. After a rate-limit answer the spider sleeps for the given
  number of seconds and \<open>continue\<close> takes the loop to the next keyword; after any other
  exception it goes to the next keyword at once; after an answer it sleeps two seconds.
\<close>

fun search_keywords ::
  "telegram \<Rightarrow> string list \<Rightarrow> string list \<times> world \<Rightarrow> string list \<times> world" where
  "search_keywords tg [] st = st"
| "search_keywords tg (keyword # rest) (found_channels, w) =
     (case tg_search tg (w_log w) keyword of
        FloodWait seconds \<Rightarrow>
          search_keywords tg rest
            (found_channels, emit (Sleep seconds) (emit (SearchGlobal keyword) w))
      | SearchError \<Rightarrow>
          search_keywords tg rest (found_channels, emit (SearchGlobal keyword) w)
      | Chats results \<Rightarrow>
          (let (found', w1) =
                 register_found tg keyword results
                   (found_channels, emit (SearchGlobal keyword) w)
           in search_keywords tg rest (found', emit (Sleep 2) w1)))"

definition search_channels_by_keywords ::
  "cfg_value dict \<Rightarrow> telegram \<Rightarrow> string list option \<Rightarrow> world \<Rightarrow> string list \<times> world" where
  "search_channels_by_keywords cfg tg keywords w =
     (let kws = (case keywords of
                   None \<Rightarrow> CHANNEL_SEARCH_KEYWORDS
                 | Some ks \<Rightarrow> if ks = [] then CHANNEL_SEARCH_KEYWORDS else ks)
      in if w_client w then search_keywords tg kws ([], w)
         else (case connect cfg tg w of
                 (False, w1) \<Rightarrow> ([], w1)
               | (True, w1) \<Rightarrow> search_keywords tg kws ([], w1)))"

definition searches :: "event list \<Rightarrow> string list" where
  "searches events =
     concat (map (\<lambda>e. case e of SearchGlobal k \<Rightarrow> [k] | _ \<Rightarrow> []) events)"

subsection \<open>Processing a message\<close>

fun join_comma :: "string list \<Rightarrow> string" where
  "join_comma [] = []"
| "join_comma [x] = x"
| "join_comma (x # y # ys) = x @ '', '' @ join_comma (y # ys)"

text \<open>
  The statistics update of \<open>_process_message\<close> (lines 341 to 352): the channel of the
  chat gets one more mention and a new relevance, and the session commits; an exception
  rolls the session back.
\<close>

definition bump_channel_stats :: "real dict \<Rightarrow> datetime \<Rightarrow> chat_entity \<Rightarrow> world \<Rightarrow> world" where
  "bump_channel_stats factors now chat w =
     (case first_index (\<lambda>c. ch_channel_id c = e_id chat) (db_channels (w_db w)) of
        None \<Rightarrow> w
      | Some i \<Rightarrow>
          (let channel = db_channels (w_db w) ! i
           in case ch_token_mentions_count channel of
                None \<Rightarrow> rollback w
              | Some n \<Rightarrow>
                  (let channel' =
                         fst (update_channel_relevance factors now
                                (channel\<lparr>ch_token_mentions_count := Some (n + 1)\<rparr>))
                   in commit (set_channels ((db_channels (w_db w))[i := channel']) w))))"

text \<open>
  \<open>_process_message\<close>. The extraction of token names is a parameter. The result is the
  candidate and the channel names found, or the exception raised, with the world as the
  call leaves it.
\<close>

definition process_message ::
  "real dict \<Rightarrow> (string \<Rightarrow> string list) \<Rightarrow> datetime \<Rightarrow> message \<Rightarrow> chat_entity \<Rightarrow> world
     \<Rightarrow> (py_error + (py_object option \<times> string list)) \<times> world" where
  "process_message factors extract_names now msg chat w =
     (case m_text msg of
        None \<Rightarrow> (Inr (None, []), w)
      | Some message_text \<Rightarrow>
          if message_text = [] then (Inr (None, []), w)
          else
            (let potential_token_names = extract_names message_text;
                 channel_names = extract_channel_links message_text
             in if potential_token_names = [] then (Inr (None, channel_names), w)
                else
                  (let w1 = bump_channel_stats factors now chat w
                   in case declarative_init TelegramMessage_columns
                             [(''message_id'', PInt (m_id msg)),
                              (''chat_id'', PStr (e_id chat)),
                              (''chat_title'',
                                 PStr (case e_title chat of None \<Rightarrow> e_id chat | Some t \<Rightarrow> t)),
                              (''sender_id'', PStr (m_sender_id msg)),
                              (''text'', PStr message_text),
                              (''timestamp'', PTime (m_date msg)),
                              (''contains_token_mention'', PBool True),
                              (''potential_token_name'',
                                 PStr (join_comma potential_token_names))] of
                        Inl e \<Rightarrow> (Inl e, w1)
                      | Inr telegram_message \<Rightarrow>
                          (let w2 = add_message telegram_message w1
                           in case track_candidate now potential_token_names message_text
                                     (db_tokens (w_db w2)) of
                                (Inl e, tokens) \<Rightarrow> (Inl e, set_tokens tokens w2)
                              | (Inr tok, tokens) \<Rightarrow>
                                  (Inr (Some tok, channel_names), set_tokens tokens w2)))))"

subsection \<open>Discovery\<close>

text \<open>
  \<open>join_channel\<close>: already a member when a message can be read; a join request after a
  refusal; any other exception gives \<open>False\<close>.
\<close>

definition join_channel :: "telegram \<Rightarrow> string \<Rightarrow> world \<Rightarrow> bool \<times> world" where
  "join_channel tg channel_name w =
     (case tg_get_entity tg channel_name of
        None \<Rightarrow> (False, w)
      | Some entity \<Rightarrow>
          (case tg_probe tg channel_name of
             ProbeOk \<Rightarrow> (True, w)
           | ProbeDenied \<Rightarrow> (tg_join tg channel_name, emit (JoinRequest channel_name) w)
           | ProbeError \<Rightarrow> (False, w)))"

text \<open>The loop over the messages of a channel: the number of messages with a candidate.\<close>

fun count_mentions ::
  "real dict \<Rightarrow> (string \<Rightarrow> string list) \<Rightarrow> datetime \<Rightarrow> chat_entity \<Rightarrow> message list
     \<Rightarrow> nat \<times> world \<Rightarrow> (py_error + nat) \<times> world" where
  "count_mentions factors extract_names now chat [] (token_mentions, w) =
     (Inr token_mentions, w)"
| "count_mentions factors extract_names now chat (msg # rest) (token_mentions, w) =
     (case process_message factors extract_names now msg chat w of
        (Inl e, w1) \<Rightarrow> (Inl e, w1)
      | (Inr (potential_token, found_channels), w1) \<Rightarrow>
          count_mentions factors extract_names now chat rest
            ((if potential_token \<noteq> None then token_mentions + 1 else token_mentions), w1))"

text \<open>
  The scan of one channel that was never scanned (the body of the loop at lines 623 to
  655); the row is identified by its channel id.
\<close>

definition scan_channel ::
  "real dict \<Rightarrow> telegram \<Rightarrow> (string \<Rightarrow> string list) \<Rightarrow> bool \<Rightarrow> datetime \<Rightarrow> string \<Rightarrow> world
     \<Rightarrow> world" where
  "scan_channel factors tg extract_names notify now cid w =
     (case find (\<lambda>c. ch_channel_id c = cid) (db_channels (w_db w)) of
        None \<Rightarrow> w
      | Some row \<Rightarrow>
          (case ch_username row of
             None \<Rightarrow> w
           | Some username \<Rightarrow>
               if username = [] then w
               else
                 (let (joined, w1) = join_channel tg username w
                  in if \<not> joined then w1
                     else
                       (case tg_get_entity tg username of
                          None \<Rightarrow> rollback w1
                        | Some entity \<Rightarrow>
                            (case tg_messages tg username of
                               None \<Rightarrow> rollback w1
                             | Some messages \<Rightarrow>
                                 (case count_mentions factors extract_names now entity
                                         (take 50 messages) (0, w1) of
                                    (Inl e, w2) \<Rightarrow> rollback w2
                                  | (Inr token_mentions, w2) \<Rightarrow>
                                      (case first_index (\<lambda>c. ch_channel_id c = cid)
                                              (db_channels (w_db w2)) of
                                         None \<Rightarrow> rollback w2
                                       | Some i \<Rightarrow>
                                           (let channel =
                                                  fst (update_channel_relevance factors now
                                                    ((db_channels (w_db w2) ! i)
                                                       \<lparr>ch_token_mentions_count :=
                                                          Some (int token_mentions),
                                                        ch_last_scanned_at := Some now\<rparr>));
                                                w3 = set_channels
                                                       ((db_channels (w_db w2))[i := channel]) w2;
                                                w4 = (if ch_relevance_score channel \<ge> 0.7 \<and> notify
                                                      then emit (ChannelAlert username) w3
                                                      else w3)
                                            in commit w4))))))))"

fun scan_channels ::
  "real dict \<Rightarrow> telegram \<Rightarrow> (string \<Rightarrow> string list) \<Rightarrow> bool \<Rightarrow> datetime \<Rightarrow> string list
     \<Rightarrow> world \<Rightarrow> world" where
  "scan_channels factors tg extract_names notify now [] w = w"
| "scan_channels factors tg extract_names notify now (cid # rest) w =
     scan_channels factors tg extract_names notify now rest
       (scan_channel factors tg extract_names notify now cid w)"

text \<open>The alerts for the channels the keyword search found (lines 606 to 615).\<close>

fun alert_new_channels :: "string list \<Rightarrow> world \<Rightarrow> world" where
  "alert_new_channels [] w = w"
| "alert_new_channels (channel_name # rest) w =
     alert_new_channels rest
       (case find (\<lambda>c. ch_username c = Some channel_name \<and> ch_relevance_score c \<ge> 0.6)
               (db_channels (w_db w)) of
          None \<Rightarrow> w
        | Some channel \<Rightarrow> emit (ChannelAlert channel_name) w)"

text \<open>
  What \<open>discover_new_channels\<close> does once the cap lets it proceed (lines 602 to 658):
  the keyword search, the alerts, the sweep over at most \<open>max_channels_per_run\<close>
  active channels that were never scanned, and the reload of the active channels.
\<close>

definition discovery_pass ::
  "cfg_value dict \<Rightarrow> real dict \<Rightarrow> telegram \<Rightarrow> (string \<Rightarrow> string list) \<Rightarrow> bool \<Rightarrow> datetime
     \<Rightarrow> world \<Rightarrow> (py_error + unit) \<times> world" where
  "discovery_pass cfg factors tg extract_names notify now w =
     (let (new_channels, w1) = search_channels_by_keywords cfg tg None w;
          w2 = (if new_channels \<noteq> [] \<and> notify then alert_new_channels new_channels w1 else w1)
      in case dict_item cfg ''max_channels_per_run'' of
           Inl e \<Rightarrow> (Inl e, w2)
         | Inr (CInt limit) \<Rightarrow>
             (let unscanned_channels =
                    take (nat limit)
                      (filter (\<lambda>c. ch_is_active c \<and> ch_last_scanned_at c = None)
                         (db_channels (w_db w2)));
                  w3 = scan_channels factors tg extract_names notify now
                         (map ch_channel_id unscanned_channels) w2
              in (Inr (), load_active_channels cfg tg w3))
         | Inr other \<Rightarrow> (Inl TypeError, w2))"

text \<open>
  The body of the \<open>try\<close> block of \<open>discover_new_channels\<close>: the count of active channels
  is compared with \<open>CHANNEL_DISCOVERY["max_channels_total"]\<close>.
\<close>

definition discovery_body ::
  "cfg_value dict \<Rightarrow> real dict \<Rightarrow> telegram \<Rightarrow> (string \<Rightarrow> string list) \<Rightarrow> bool \<Rightarrow> datetime
     \<Rightarrow> world \<Rightarrow> (py_error + unit) \<times> world" where
  "discovery_body cfg factors tg extract_names notify now w =
     (let current_count = length (filter ch_is_active (db_channels (w_db w)))
      in case dict_item cfg ''max_channels_total'' of
           Inl e \<Rightarrow> (Inl e, w)
         | Inr cap \<Rightarrow>
             if real current_count \<ge> cfg_num cap then (Inr (), w)
             else discovery_pass cfg factors tg extract_names notify now w)"

text \<open>
  \<open>discover_new_channels\<close>: the test of \<open>enabled\<close> is outside the \<open>try\<close> block; an
  exception inside it is caught and logged, and the function returns.
\<close>

definition discover_new_channels ::
  "cfg_value dict \<Rightarrow> real dict \<Rightarrow> telegram \<Rightarrow> (string \<Rightarrow> string list) \<Rightarrow> bool \<Rightarrow> datetime
     \<Rightarrow> world \<Rightarrow> (py_error + unit) \<times> world" where
  "discover_new_channels cfg factors tg extract_names notify now w =
     (case dict_item cfg ''enabled'' of
        Inl e \<Rightarrow> (Inl e, w)
      | Inr enabled \<Rightarrow>
          if \<not> cfg_truthy enabled then (Inr (), w)
          else (Inr (), snd (discovery_body cfg factors tg extract_names notify now w)))"

subsection \<open>Scenarios\<close>

text \<open>A connected spider with empty tables.\<close>

definition empty_world :: world where
  "empty_world =
     \<lparr>w_db = \<lparr>db_channels = [], db_tokens = [], db_messages = []\<rparr>,
      w_committed = \<lparr>db_channels = [], db_tokens = [], db_messages = []\<rparr>,
      w_active = [],
      w_client = True,
      w_log = []\<rparr>"

text \<open>
  A platform that answers the first global search with a rate limit of 7 seconds and
  every later one with the single chat \<open>ton_chat\<close>, and knows no channel details.
\<close>

definition throttling_telegram :: telegram where
  "throttling_telegram =
     \<lparr>tg_connect = True,
      tg_search = (\<lambda>log keyword.
         if searches log = [] then FloodWait 7 else Chats [Some ''ton_chat'']),
      tg_channel_info = (\<lambda>name. None),
      tg_get_entity = (\<lambda>name. None),
      tg_probe = (\<lambda>name. ProbeError),
      tg_join = (\<lambda>name. False),
      tg_messages = (\<lambda>name. None)\<rparr>"

text \<open>\<open>CHANNEL_DISCOVERY\<close> with the cap under the key the routine reads.\<close>

definition capped_discovery :: "cfg_value dict" where
  "capped_discovery = (''max_channels_total'', CInt 50) # CHANNEL_DISCOVERY"

text \<open>A message of the chat \<open>1001\<close> and the candidate that a first mention of FOO creates.\<close>

definition foo_message :: message where
  "foo_message =
     \<lparr>m_id = 1, m_text = Some ''airdrop FOO'', m_sender_id = ''42'', m_date = 0\<rparr>"

definition foo_chat :: chat_entity where
  "foo_chat = \<lparr>e_id = ''1001'', e_title = Some ''Cryptoton''\<rparr>"

definition foo_token :: py_object where
  "foo_token =
     [(''name'', PStr ''FOO''),
      (''description'', PStr ''airdrop FOO''),
      (''confidence_score'', PFloat 0.3)]"

section \<open>Fetching a token profile (memepad/parser.py)\<close>

datatype json =
    JNull
  | JBool bool
  | JNum real
  | JStr string
  | JArr "json list"
  | JObj "(string \<times> json) list"

text \<open>
  What a GET request comes to: an exception (no connection, a timeout), or a response
  with a status and a body; the body is \<open>None\<close> when \<open>resp.json()\<close> raises on it. The
  remote sources are a parameter that maps the URL to the outcome.
\<close>

datatype http = Failed | Response nat "json option"

type_synonym web = "string \<Rightarrow> http"

definition MEMEPAD_BASE_URL :: string where
  "MEMEPAD_BASE_URL = ''https://memepad.io/api''"

definition REACTIONS_BASE_URL :: string where
  "REACTIONS_BASE_URL = ''https://reactions.llc/api''"

definition STONFI_BASE_URL :: string where
  "STONFI_BASE_URL = ''https://api.ston.fi/v1''"

definition details_url :: "string \<Rightarrow> string" where
  "details_url short_name = MEMEPAD_BASE_URL @ ''/jetton/s/'' @ short_name"

definition reactions_url :: "string \<Rightarrow> string" where
  "reactions_url short_name = REACTIONS_BASE_URL @ ''/reactions/'' @ short_name"

definition transactions_url :: "string \<Rightarrow> string" where
  "transactions_url short_name =
     MEMEPAD_BASE_URL @ ''/jetton/s/'' @ short_name @ ''/transactions''"

definition stonfi_url :: "string \<Rightarrow> string" where
  "stonfi_url contract_address =
     STONFI_BASE_URL @ ''/wallets/'' @ ''EQDjal6NZlYefSz0qYbbKYL_5G7lzdixamDHcXv3sUP0OYMu''
       @ ''/assets/'' @ contract_address"

text \<open>
  Each fetcher returns a Python value (\<open>JNull\<close> is \<open>None\<close>); its \<open>except Exception\<close>
  handler turns every exception into the fetcher's empty value.
\<close>

definition fetch_jetton_details :: "string \<Rightarrow> web \<Rightarrow> json" where
  "fetch_jetton_details short_name web =
     (case web (details_url short_name) of
        Failed \<Rightarrow> JNull
      | Response status body \<Rightarrow>
          if status \<noteq> 200 then JNull
          else (case body of None \<Rightarrow> JNull | Some data \<Rightarrow> data))"

definition fetch_reactions :: "string \<Rightarrow> web \<Rightarrow> json" where
  "fetch_reactions short_name web =
     (case web (reactions_url short_name) of
        Failed \<Rightarrow> JObj []
      | Response status body \<Rightarrow>
          if status \<noteq> 200 then JObj []
          else (case body of None \<Rightarrow> JObj [] | Some data \<Rightarrow> data))"

definition fetch_transactions :: "string \<Rightarrow> web \<Rightarrow> json" where
  "fetch_transactions short_name web =
     (case web (transactions_url short_name) of
        Failed \<Rightarrow> JArr []
      | Response status body \<Rightarrow>
          if status \<noteq> 200 then JArr []
          else (case body of
                  None \<Rightarrow> JArr []
                | Some (JObj data) \<Rightarrow> dict_get data ''transactions'' (JArr [])
                | Some other \<Rightarrow> JArr []))"

definition fetch_stonfi_data :: "string \<Rightarrow> web \<Rightarrow> json" where
  "fetch_stonfi_data contract_address web =
     (case web (stonfi_url contract_address) of
        Failed \<Rightarrow> JNull
      | Response status body \<Rightarrow>
          if status \<noteq> 200 then JNull
          else (case body of None \<Rightarrow> JNull | Some data \<Rightarrow> data))"

text \<open>
  \<open>asyncio.gather\<close> starts all tasks and collects their results by position. The tasks
  finish in an order the program does not control: the schedule lists the positions in
  the order of completion. A position that never completes has no result.
\<close>

definition gather :: "nat list \<Rightarrow> (web \<Rightarrow> json) list \<Rightarrow> web \<Rightarrow> json option list" where
  "gather schedule tasks web =
     fold (\<lambda>i results. results[i := Some ((tasks ! i) web)]) schedule
       (replicate (length tasks) None)"

record complete_data =
  cd_details :: json
  cd_reactions :: json
  cd_transactions :: json
  cd_stonfi_data :: json

definition get_complete_jetton_data ::
  "nat list \<Rightarrow> web \<Rightarrow> string \<Rightarrow> string \<Rightarrow> complete_data option" where
  "get_complete_jetton_data schedule web short_name address =
     (let tasks = [fetch_jetton_details short_name,
                   fetch_reactions short_name,
                   fetch_transactions short_name,
                   fetch_stonfi_data address]
      in case gather schedule tasks web of
           [Some r0, Some r1, Some r2, Some r3] \<Rightarrow>
             Some \<lparr>cd_details = r0, cd_reactions = r1, cd_transactions = r2,
                   cd_stonfi_data = r3\<rparr>
         | _ \<Rightarrow> None)"

text \<open>
  Sources of which the details and the liquidity fail, the reactions answer with a
  server error and only the transactions arrive.
\<close>

definition failing_web :: web where
  "failing_web url =
     (if url = transactions_url ''foo''
      then Response 200 (Some (JObj [(''transactions'', JArr [JStr ''tx1''])]))
      else if url = reactions_url ''foo'' then Response 500 None
      else Failed)"

text \<open>
  Sources that agree with \<open>failing_web\<close> on the reactions and differ from it on the
  transactions; and sources that all answer 200, the transactions as in \<open>failing_web\<close>.
\<close>

definition reactions_only_web :: web where
  "reactions_only_web url =
     (if url = reactions_url ''foo'' then Response 500 None else Failed)"

definition healthy_web :: web where
  "healthy_web url =
     (if url = transactions_url ''foo''
      then Response 200 (Some (JObj [(''transactions'', JArr [JStr ''tx1''])]))
      else if url = reactions_url ''foo''
      then Response 200 (Some (JObj [(''fire'', JNum 10)]))
      else if url = details_url ''foo''
      then Response 200 (Some (JObj [(''ticker'', JStr ''FOO'')]))
      else Response 200 (Some (JObj [(''liquidity'', JObj [(''usd'', JNum 5000)])])))"

section \<open>Properties of the risk aggregation\<close>

lemma analyze_holders_range:
  "0 \<le> fst (analyze_holders hs) \<and> fst (analyze_holders hs) \<le> 1"
  by (cases hs) (auto simp: analyze_holders_def Let_def max_def)

lemma analyze_liquidity_range:
  "0 \<le> fst (analyze_liquidity e) \<and> fst (analyze_liquidity e) \<le> 1"
  by (cases e) (auto simp: analyze_liquidity_def Let_def)

lemma analyze_transactions_range:
  "0 \<le> fst (analyze_transactions ts) \<and> fst (analyze_transactions ts) \<le> 1"
  by (auto simp: analyze_transactions_def)

lemma analyze_description_range:
  "0 \<le> fst (analyze_description nlp d) \<and> fst (analyze_description nlp d) \<le> 1"
  by (auto simp: analyze_description_def Let_def max_def
      split: option.splits sum.splits prod.splits)

lemma analyze_jetton_score:
  assumes "jd_details jd \<noteq> PyNone"
  shows "\<exists>r. analyze_jetton now nlp jd = Inr r \<and>
           scam_score r =
             (let h = fst (analyze_holders (opt_list (d_holders (details_in jd))));
                  l = fst (analyze_liquidity (jd_stonfi_data jd));
                  t = fst (analyze_transactions (transactions_in jd));
                  d = fst (analyze_description nlp (opt_list (d_description (details_in jd))))
              in if fst (check_fake_channel now (opt_list (d_socials (details_in jd))))
                 then (0.8 + h + l + t + d) / 5 else (h + l + t + d) / 4) \<and>
           (is_scam r \<longleftrightarrow> scam_score r \<ge> 0.75)"
  using assms
  by (simp add: analyze_jetton_def risk_scores_of_def Let_def SCAM_THRESHOLD_def)

lemma mean_bounds:
  fixes h l t d :: real
  assumes "0 \<le> h \<and> h \<le> 1" "0 \<le> l \<and> l \<le> 1" "0 \<le> t \<and> t \<le> 1" "0 \<le> d \<and> d \<le> 1"
  shows "0 \<le> (h + l + t + d) / 4 \<and> (h + l + t + d) / 4 \<le> 1"
    and "0 \<le> (0.8 + h + l + t + d) / 5 \<and> (0.8 + h + l + t + d) / 5 \<le> 1"
  using assms by auto

lemma missing_inputs:
  "analyze_holders [] = (0.5, [NoHolderData])"
  "analyze_liquidity Absent = (0.5, [NoLiquidityData])"
  "analyze_liquidity PyNone = (0.5, [NoLiquidityData])"
  "analyze_liquidity (Val []) = (0.5, [NoLiquidityData])"
  "analyze_transactions [] = (0.5, [NoTransactionData])"
  "analyze_description nlp [] = (0.5, [NoDescription])"
  "check_fake_channel now [] = (False, [])"
  by (simp_all add: analyze_holders_def analyze_liquidity_def analyze_transactions_def
      analyze_description_def check_fake_channel_def)

lemma profile_scores:
  "risk_scores_of now nlp (details_in (profile liq ntx desc)) ts sf =
     [0.95, fst (analyze_liquidity sf), fst (analyze_transactions ts),
      fst (analyze_description nlp (opt_list desc))]"
  by (simp add: risk_scores_of_def profile_def details_in_def mk_holders_def
      analyze_holders_def percent_of_def check_fake_channel_def opt_list_def)

subsection \<open>Holder concentration\<close>

lemma analyze_holders_max:
  assumes "holders \<noteq> []"
  shows "fst (analyze_holders holders) =
     max (max (if percent_of (hd holders) > 50 then 0.95
               else if percent_of (hd holders) > 30 then 0.7 else 0)
              (if length holders < 10 then 0.6 else 0))
         (if sum_list (map percent_of (take 5 holders)) > 90 then 0.8 else 0)"
  using assms by (cases holders) (auto simp: analyze_holders_def Let_def max_def)

text \<open>
  Claim C6, as the code has it. For every non-empty holder list (sorted or not, the code
  reads the first entry and the first five), the holder sub-score is at least 0.95 when
  the top holder's percentage is strictly above 50, at least 0.7 when it is in (30, 50],
  and at least 0.8 when the first five percentages sum to more than 90; the sub-score is
  the maximum of the three partial scores (top holder, holder count below 10, top five),
  not their average.
\<close>

theorem C6_analyze_holders_thresholds:
  assumes "holders \<noteq> []"
  shows "(percent_of (hd holders) > 50 \<longrightarrow> fst (analyze_holders holders) \<ge> 0.95)
       \<and> (30 < percent_of (hd holders) \<and> percent_of (hd holders) \<le> 50
            \<longrightarrow> fst (analyze_holders holders) \<ge> 0.7)
       \<and> (sum_list (map percent_of (take 5 holders)) > 90
            \<longrightarrow> fst (analyze_holders holders) \<ge> 0.8)
       \<and> fst (analyze_holders holders) =
           max (max (if percent_of (hd holders) > 50 then 0.95
                     else if percent_of (hd holders) > 30 then 0.7 else 0)
                    (if length holders < 10 then 0.6 else 0))
               (if sum_list (map percent_of (take 5 holders)) > 90 then 0.8 else 0)"
proof -
  have m: "fst (analyze_holders holders) =
     max (max (if percent_of (hd holders) > 50 then 0.95
               else if percent_of (hd holders) > 30 then 0.7 else 0)
              (if length holders < 10 then 0.6 else 0))
         (if sum_list (map percent_of (take 5 holders)) > 90 then 0.8 else 0)"
    using assms by (rule analyze_holders_max)
  show ?thesis
    unfolding m by (auto simp: max_def)
qed

text \<open>
  Witness for C6: the list 60, 20, 5, 5, 5 (top holder above 50, top five above 90) and
  the list 40, 1 (top holder in (30, 50]).
\<close>

theorem C6_witness:
  "mk_holders [60, 20, 5, 5, 5] \<noteq> []
   \<and> percent_of (hd (mk_holders [60, 20, 5, 5, 5])) > 50
   \<and> sum_list (map percent_of (take 5 (mk_holders [60, 20, 5, 5, 5]))) > 90
   \<and> fst (analyze_holders (mk_holders [60, 20, 5, 5, 5])) \<ge> 0.95
   \<and> mk_holders [40, 1] \<noteq> []
   \<and> 30 < percent_of (hd (mk_holders [40, 1]))
   \<and> percent_of (hd (mk_holders [40, 1])) \<le> 50
   \<and> fst (analyze_holders (mk_holders [40, 1])) \<ge> 0.7"
  using C6_analyze_holders_thresholds [of "mk_holders [60, 20, 5, 5, 5]"]
        C6_analyze_holders_thresholds [of "mk_holders [40, 1]"]
  by (simp add: mk_holders_def percent_of_def)

text \<open>
  Counterexample to C6 as stated: ten holders sorted descending, the top one holding
  exactly 50 percent and the others 1 percent each. The top holder's percentage is
  \<open>\<ge> 50\<close>, yet the sub-score is 0.7, below 0.95: the code tests \<open>> 50\<close>.
\<close>

theorem C6_counterexample:
  "mk_holders [50, 1, 1, 1, 1, 1, 1, 1, 1, 1] \<noteq> []
   \<and> sorted_wrt (\<ge>) (map percent_of (mk_holders [50, 1, 1, 1, 1, 1, 1, 1, 1, 1]))
   \<and> percent_of (hd (mk_holders [50, 1, 1, 1, 1, 1, 1, 1, 1, 1])) \<ge> 50
   \<and> fst (analyze_holders (mk_holders [50, 1, 1, 1, 1, 1, 1, 1, 1, 1])) = 0.7
   \<and> \<not> fst (analyze_holders (mk_holders [50, 1, 1, 1, 1, 1, 1, 1, 1, 1])) \<ge> 0.95"
  by (simp add: analyze_holders_def mk_holders_def percent_of_def)

subsection \<open>Final score\<close>

text \<open>
  Claim C1, as the code has it. For every token profile whose \<open>details\<close> entry is not
  \<open>None\<close>, \<open>analyze_jetton\<close> returns, and the score is the unweighted mean of the
  sub-scores it collected: the four of holders, liquidity, transactions and description,
  and a fixed 0.8 for the fake-channel check only when that check flagged a channel
  (otherwise the check contributes no score, so the mean is over four). The score is in
  [0, 1], and \<open>is_scam\<close> holds exactly when it is at least 0.75. A missing input gives
  the holder, liquidity, transaction and description analyzers the score 0.5 with a
  reason noting the absent data; the fake-channel check on no social links flags nothing.
\<close>

theorem C1_analyze_jetton_mean:
  assumes "jd_details jd \<noteq> PyNone"
  shows "\<exists>r. analyze_jetton now nlp jd = Inr r
           \<and> scam_score r =
               (let h = fst (analyze_holders (opt_list (d_holders (details_in jd))));
                    l = fst (analyze_liquidity (jd_stonfi_data jd));
                    t = fst (analyze_transactions (transactions_in jd));
                    d = fst (analyze_description nlp (opt_list (d_description (details_in jd))))
                in if fst (check_fake_channel now (opt_list (d_socials (details_in jd))))
                   then (0.8 + h + l + t + d) / 5 else (h + l + t + d) / 4)
           \<and> 0 \<le> scam_score r \<and> scam_score r \<le> 1
           \<and> (is_scam r \<longleftrightarrow> scam_score r \<ge> 0.75)
           \<and> analyze_holders [] = (0.5, [NoHolderData])
           \<and> analyze_liquidity Absent = (0.5, [NoLiquidityData])
           \<and> analyze_liquidity PyNone = (0.5, [NoLiquidityData])
           \<and> analyze_liquidity (Val []) = (0.5, [NoLiquidityData])
           \<and> analyze_transactions [] = (0.5, [NoTransactionData])
           \<and> analyze_description nlp [] = (0.5, [NoDescription])
           \<and> check_fake_channel now [] = (False, [])"
proof -
  from analyze_jetton_score [OF assms, of now nlp]
  obtain r where r: "analyze_jetton now nlp jd = Inr r"
    and s: "scam_score r =
               (let h = fst (analyze_holders (opt_list (d_holders (details_in jd))));
                    l = fst (analyze_liquidity (jd_stonfi_data jd));
                    t = fst (analyze_transactions (transactions_in jd));
                    d = fst (analyze_description nlp (opt_list (d_description (details_in jd))))
                in if fst (check_fake_channel now (opt_list (d_socials (details_in jd))))
                   then (0.8 + h + l + t + d) / 5 else (h + l + t + d) / 4)"
    and i: "is_scam r \<longleftrightarrow> scam_score r \<ge> 0.75"
    by blast
  have b: "0 \<le> scam_score r \<and> scam_score r \<le> 1"
    unfolding s Let_def
    using mean_bounds [OF analyze_holders_range analyze_liquidity_range
        analyze_transactions_range analyze_description_range]
    by (simp split: if_splits)
  show ?thesis
    using r s i b missing_inputs by blast
qed

text \<open>
  Witness for C1: the profile with holders 60, 20, 5, 5, 5, liquidity 500 USD, two
  transactions, no description and no social links.
\<close>

theorem C1_witness:
  "jd_details (profile 500 2 None) \<noteq> PyNone
   \<and> (\<exists>r. analyze_jetton 0 None (profile 500 2 None) = Inr r
          \<and> 0 \<le> scam_score r \<and> scam_score r \<le> 1
          \<and> (is_scam r \<longleftrightarrow> scam_score r \<ge> 0.75))"
proof -
  have h: "jd_details (profile 500 2 None) \<noteq> PyNone"
    by (simp add: profile_def)
  from C1_analyze_jetton_mean [OF h, of 0 None] show ?thesis
    using h by blast
qed

text \<open>
  Counterexample to C1 as stated: on that profile the fake-channel check flags nothing
  and contributes no score; the four collected scores are 0.95, 0.8, 0.6 and 0.5 and the
  result is their mean 0.7125. The mean of five sub-scores would be 0.57 with a
  fake-channel score of 0, and 0.67 with the neutral 0.5 for its missing input.
\<close>

theorem C1_counterexample:
  "risk_scores_of 0 None (details_in (profile 500 2 None))
       (transactions_in (profile 500 2 None)) (jd_stonfi_data (profile 500 2 None))
     = [0.95, 0.8, 0.6, 0.5]
   \<and> map_sum id scam_score (analyze_jetton 0 None (profile 500 2 None)) = Inr 0.7125
   \<and> (0.7125 :: real) \<noteq> (0 + 0.95 + 0.8 + 0.6 + 0.5) / 5
   \<and> (0.7125 :: real) \<noteq> (0.5 + 0.95 + 0.8 + 0.6 + 0.5) / 5"
  by (simp add: analyze_jetton_def profile_scores Let_def)
     (simp add: profile_def transactions_in_def analyze_liquidity_def dict_get_def
        analyze_transactions_def analyze_description_def opt_list_def)

text \<open>
  Claim C3, as the code has it. For the profile with holder percentages 60, 20, 5, 5, 5,
  liquidity 100 USD, three transactions, no social links, any description text and no
  sentiment classifier: the holder sub-score is 0.95, the liquidity sub-score 0.8, the
  transaction sub-score 0.6, the fake-channel check contributes no score, and the final
  score is the mean of these three and the description sub-score over four; \<open>is_scam\<close>
  holds exactly when that mean is at least 0.75.
\<close>

theorem C3_scenario_scores:
  "risk_scores_of now None (details_in (profile 100 3 (Some desc)))
       (transactions_in (profile 100 3 (Some desc))) (jd_stonfi_data (profile 100 3 (Some desc)))
     = [0.95, 0.8, 0.6, fst (analyze_description None desc)]
   \<and> map_sum id scam_score (analyze_jetton now None (profile 100 3 (Some desc)))
     = Inr ((0.95 + 0.8 + 0.6 + fst (analyze_description None desc)) / 4)
   \<and> map_sum id is_scam (analyze_jetton now None (profile 100 3 (Some desc)))
     = Inr ((0.95 + 0.8 + 0.6 + fst (analyze_description None desc)) / 4 \<ge> 0.75)"
  by (simp add: analyze_jetton_def profile_scores Let_def SCAM_THRESHOLD_def)
     (auto simp add: profile_def transactions_in_def analyze_liquidity_def dict_get_def
        analyze_transactions_def opt_list_def)

text \<open>
  Counterexample to C3 as stated: with the description \<open>100x guaranteed profit\<close> no
  pattern source occurs in the text as a substring, the description sub-score is 0 and
  not 0.7, only four scores are averaged, and the final score is 0.5875, not 0.61.
\<close>

theorem C3_counterexample:
  "fst (analyze_description None ''100x guaranteed profit'') = 0
   \<and> map_sum id scam_score
       (analyze_jetton 0 None (profile 100 3 (Some ''100x guaranteed profit'')))
     = Inr 0.5875
   \<and> (0.5875 :: real) \<noteq> 0.61"
proof -
  have d: "analyze_description None ''100x guaranteed profit'' = (0, [])"
    by (simp add: analyze_description_def first_pattern_def SCAM_PATTERNS_def
        lower_char_def Let_def)
  show ?thesis
    by (simp add: analyze_jetton_def profile_scores Let_def d)
       (simp add: profile_def transactions_in_def analyze_liquidity_def dict_get_def
          analyze_transactions_def opt_list_def d)
qed

section \<open>Properties of the entity extraction\<close>

text \<open>
  Claim C9. \<open>extract_channel_links\<close> is a function of the text alone (the model has no
  state to read or write, so the same text always gives the same names). Its result has
  no duplicates and holds exactly the names captured by any of the four patterns; on the
  text \<open>join @cryptoton_news and t.me/cryptoton_news\<close> it holds the one name
  \<open>cryptoton_news\<close>, captured by both the \<open>t.me/\<close> pattern and the \<open>@\<close> pattern.
\<close>

theorem C9_extract_channel_links:
  "set (extract_channel_links ''join @cryptoton_news and t.me/cryptoton_news'')
     = {''cryptoton_news''}
   \<and> map (\<lambda>pattern. findall pattern ''join @cryptoton_news and t.me/cryptoton_news'')
         TELEGRAM_LINK_PATTERNS
     = [[''cryptoton_news''], [''cryptoton_news''], [], []]
   \<and> distinct (extract_channel_links text)
   \<and> set (extract_channel_links text)
     = set (concat (map (\<lambda>pattern. findall pattern text) TELEGRAM_LINK_PATTERNS))"
proof -
  have m: "map (\<lambda>pattern. findall pattern ''join @cryptoton_news and t.me/cryptoton_news'')
         TELEGRAM_LINK_PATTERNS
     = [[''cryptoton_news''], [''cryptoton_news''], [], []]"
    by (simp add: TELEGRAM_LINK_PATTERNS_def findall_def match_at_def
        match_body_def match_scheme_def word_char_def word_dash_char_def)
  have s: "set (extract_channel_links ''join @cryptoton_news and t.me/cryptoton_news'')
     = {''cryptoton_news''}"
    unfolding extract_channel_links_def m by simp
  show ?thesis
    using m s by (simp add: extract_channel_links_def)
qed

section \<open>Properties of the channel relevance\<close>

lemma scenario_keyword_matches:
  "keyword_matches ''TON jetton token airdrop on memepad'' = 5"
  by (simp add: keyword_matches_def TOKEN_KEYWORDS_def lower_char_def Let_def)

text \<open>
  Upper-case Cyrillic text is lowered too: the word TON in Cyrillic capitals, followed by
  JETTON, hits the keywords \<open>jetton\<close>, \<open>TON\<close> and the Cyrillic \<open>ton\<close>.
\<close>

lemma keyword_matches_cyrillic:
  "lower [CHR 0xD0, CHR 0xA2, CHR 0xD0, CHR 0x9E, CHR 0xD0, CHR 0x9D]
     = [CHR 0xD1, CHR 0x82, CHR 0xD0, CHR 0xBE, CHR 0xD0, CHR 0xBD]
   \<and> keyword_matches ([CHR 0xD0, CHR 0xA2, CHR 0xD0, CHR 0x9E, CHR 0xD0, CHR 0x9D] @ '' JETTON'')
     = 3"
  by code_simp

lemma keyword_matches_empty: "keyword_matches [] = 0"
  by (simp add: keyword_matches_def TOKEN_KEYWORDS_def lower_char_def Let_def)

text \<open>
  Claim C2, as the code has it. Under a weight table that gives \<open>token_mentions\<close> 0.4,
  \<open>members_count\<close> 0.2, \<open>activity\<close> 0.15, \<open>description\<close> 0.15 and \<open>age\<close> 0.1 (the
  keys the routine reads), for a channel with 12 token mentions, 500 members, last
  scanned 5 days ago, a description with at least 5 keyword hits, created 90 days ago,
  \<open>update_channel_relevance\<close> computes, stores and returns
  0.4 + 0.01 + 0.125 + 0.15 + 0.09 = 0.775.
\<close>

theorem C2_update_channel_relevance:
  assumes "map_of factors ''token_mentions'' = Some 0.4"
    and "map_of factors ''members_count'' = Some 0.2"
    and "map_of factors ''activity'' = Some 0.15"
    and "map_of factors ''description'' = Some 0.15"
    and "map_of factors ''age'' = Some 0.1"
    and "ch_token_mentions_count channel = Some 12"
    and "ch_members_count channel = Some 500"
    and "ch_last_scanned_at channel = Some scanned"
    and "days_between now scanned = 5"
    and "ch_description channel = Some description"
    and "5 \<le> keyword_matches description"
    and "ch_created_at channel = Some created"
    and "days_between now created = 90"
  shows "update_channel_relevance factors now channel =
           (channel\<lparr>ch_relevance_score := 0.775\<rparr>, 0.775)"
proof -
  have d: "description \<noteq> []"
    using assms(11) keyword_matches_empty by auto
  have m: "min 1.0 (real (keyword_matches description) / 5) = 1"
    using assms(11) by (simp add: min_def)
  have "relevance_sum factors now channel = Inr 0.775"
    using assms d unfolding relevance_sum_def
    by (simp add: m bind_err_def dict_item_def age_band_def Let_def)
  then show ?thesis
    by (simp add: update_channel_relevance_def)
qed

text \<open>Witness for C2: the scenario channel at time \<open>100 * day\<close> under the claim's weights.\<close>

theorem C2_witness:
  "map_of scenario_factors ''token_mentions'' = Some 0.4
   \<and> map_of scenario_factors ''members_count'' = Some 0.2
   \<and> map_of scenario_factors ''activity'' = Some 0.15
   \<and> map_of scenario_factors ''description'' = Some 0.15
   \<and> map_of scenario_factors ''age'' = Some 0.1
   \<and> ch_token_mentions_count scenario_channel = Some 12
   \<and> ch_members_count scenario_channel = Some 500
   \<and> ch_last_scanned_at scenario_channel = Some (95 * day)
   \<and> days_between (100 * day) (95 * day) = 5
   \<and> ch_description scenario_channel = Some ''TON jetton token airdrop on memepad''
   \<and> 5 \<le> keyword_matches ''TON jetton token airdrop on memepad''
   \<and> ch_created_at scenario_channel = Some (10 * day)
   \<and> days_between (100 * day) (10 * day) = 90
   \<and> update_channel_relevance scenario_factors (100 * day) scenario_channel =
       (scenario_channel\<lparr>ch_relevance_score := 0.775\<rparr>, 0.775)"
proof -
  have h: "map_of scenario_factors ''token_mentions'' = Some 0.4"
    "map_of scenario_factors ''members_count'' = Some 0.2"
    "map_of scenario_factors ''activity'' = Some 0.15"
    "map_of scenario_factors ''description'' = Some 0.15"
    "map_of scenario_factors ''age'' = Some 0.1"
    "ch_token_mentions_count scenario_channel = Some 12"
    "ch_members_count scenario_channel = Some 500"
    "ch_last_scanned_at scenario_channel = Some (95 * day)"
    "days_between (100 * day) (95 * day) = 5"
    "ch_description scenario_channel = Some ''TON jetton token airdrop on memepad''"
    "5 \<le> keyword_matches ''TON jetton token airdrop on memepad''"
    "ch_created_at scenario_channel = Some (10 * day)"
    "days_between (100 * day) (10 * day) = 90"
    by (simp_all add: scenario_factors_def scenario_channel_def days_between_def day_def
        scenario_keyword_matches)
  from C2_update_channel_relevance [OF h] h show ?thesis
    by simp
qed

text \<open>
  Counterexample to C2 as stated: under the claim's weights the scenario channel gets
  0.775, which is more than 0.04 away from 0.7345; and under \<open>RELEVANCE_FACTORS\<close> as
  config.py defines it (the description weight is keyed \<open>description_relevance\<close>) the
  lookup of \<open>description\<close> fails, nothing is stored and the old score 0.5 is returned.
\<close>

theorem C2_counterexample:
  "update_channel_relevance scenario_factors (100 * day) scenario_channel =
       (scenario_channel\<lparr>ch_relevance_score := 0.775\<rparr>, 0.775)
   \<and> \<not> \<bar>(0.775 :: real) - 0.7345\<bar> \<le> 0.04
   \<and> relevance_sum RELEVANCE_FACTORS (100 * day) scenario_channel = Inl KeyError
   \<and> update_channel_relevance RELEVANCE_FACTORS (100 * day) scenario_channel =
       (scenario_channel, 0.5)"
proof -
  have a: "relevance_sum scenario_factors (100 * day) scenario_channel = Inr 0.775"
    by (simp add: relevance_sum_def scenario_factors_def scenario_channel_def bind_err_def
        dict_item_def days_between_def day_def age_band_def scenario_keyword_matches)
  have b: "relevance_sum RELEVANCE_FACTORS (100 * day) scenario_channel = Inl KeyError"
    by (simp add: relevance_sum_def RELEVANCE_FACTORS_def scenario_channel_def bind_err_def
        dict_item_def days_between_def day_def age_band_def)
  have c: "ch_relevance_score scenario_channel = 0.5"
    by (simp add: scenario_channel_def)
  show ?thesis
    by (simp add: update_channel_relevance_def a b c)
qed

section \<open>Properties of the candidate tokens\<close>

lemma getattr_setattr_same: "getattr cols (setattr obj a v) a = Inr v"
  by (simp add: getattr_def setattr_def)

lemma map_of_filter_other:
  "a \<noteq> b \<Longrightarrow> map_of (filter (\<lambda>kv. fst kv \<noteq> a) obj) b = map_of obj b"
  by (induction obj) auto

lemma getattr_setattr_other:
  "a \<noteq> b \<Longrightarrow> getattr cols (setattr obj a v) b = getattr cols obj b"
  by (simp add: getattr_def setattr_def map_of_filter_other)

lemma confidence_of_setattr_other:
  "a \<noteq> ''confidence_score'' \<Longrightarrow> confidence_of (setattr obj a v) = confidence_of obj"
  by (simp add: confidence_of_def getattr_setattr_other)

lemma confidence_of_setattr_same:
  "confidence_of (setattr obj ''confidence_score'' (PFloat c)) = Inr c"
  by (simp add: confidence_of_def getattr_setattr_same bind_err_def as_number_def)

text \<open>
  No statement of the repository assigns \<open>mention_count\<close> before line 379 reads it, and
  the class does not declare it: on an instance without it the update raises
  \<open>AttributeError\<close> and changes nothing.
\<close>

lemma mention_existing_undeclared:
  assumes "map_of existing_token ''mention_count'' = None"
  shows "mention_existing now existing_token = (Inl AttributeError, existing_token)"
  using assms
  by (simp add: mention_existing_def getattr_def PotentialToken_columns_def bind_err_def)

text \<open>Where the update completes, it adds 0.1 to the confidence and caps it at 1.0.\<close>

lemma mention_existing_confidence:
  assumes "mention_existing now token = (Inr (), token')"
    and "confidence_of token = Inr c"
  shows "confidence_of token' = Inr (min 1.0 (c + 0.1))"
proof -
  from assms(1) obtain count where
    "bind_err (getattr PotentialToken_columns token ''mention_count'') py_incr = Inr count"
    by (cases "bind_err (getattr PotentialToken_columns token ''mention_count'') py_incr")
       (simp_all add: mention_existing_def)
  moreover have "confidence_of
      (setattr (setattr token ''mention_count'' count) ''last_mentioned_at'' (PTime now)) = Inr c"
    using assms(2) by (simp add: confidence_of_setattr_other)
  ultimately show ?thesis
    using assms(1)
    by (auto simp add: mention_existing_def Let_def confidence_of_setattr_same)
qed

text \<open>
  The constructor call at line 358 passes \<open>chat_title\<close>, \<open>contains_token_mention\<close> and
  \<open>potential_token_name\<close>, which \<open>TelegramMessage\<close> does not declare: whenever a
  message names a token, \<open>_process_message\<close> raises \<open>TypeError\<close> before it reaches the
  candidates.
\<close>

lemma process_message_raises:
  assumes "m_text msg = Some message_text" "message_text \<noteq> []"
    and "extract_names message_text \<noteq> []"
  shows "fst (process_message factors extract_names now msg chat w) = Inl TypeError"
    and "db_tokens (w_db (snd (process_message factors extract_names now msg chat w)))
         = db_tokens (w_db (bump_channel_stats factors now chat w))"
  using assms
  by (simp_all add: process_message_def declarative_init_def TelegramMessage_columns_def
      Let_def)

text \<open>
  Claim C8, evaluated on the code. The first mention of FOO, taken alone, creates a
  candidate with the confidence 0.3. A second mention of the same name finds that
  candidate and raises \<open>AttributeError\<close> at \<open>existing_token.mention_count += 1\<close>: the
  mention count is not incremented and the confidence stays at 0.3. Within
  \<open>_process_message\<close> even the first mention raises \<open>TypeError\<close> at the construction of
  the message row, and no candidate is stored.
\<close>

theorem C8_repeated_mention_raises:
  "track_candidate 0 [''FOO''] ''airdrop FOO'' [] = (Inr foo_token, [foo_token])
   \<and> confidence_of foo_token = Inr 0.3
   \<and> track_candidate 1 [''FOO''] ''airdrop FOO'' [foo_token]
       = (Inl AttributeError, [foo_token])
   \<and> fst (process_message RELEVANCE_FACTORS (\<lambda>text. [''FOO'']) 0 foo_message foo_chat
            empty_world) = Inl TypeError
   \<and> db_tokens (w_db (snd (process_message RELEVANCE_FACTORS (\<lambda>text. [''FOO'']) 0
            foo_message foo_chat empty_world))) = []"
  by (simp add: track_candidate_def first_token_named_def declarative_init_def
      PotentialToken_columns_def foo_token_def getattr_def token_named_def
      mention_existing_def bind_err_def process_message_def foo_message_def foo_chat_def
      empty_world_def TelegramMessage_columns_def bump_channel_stats_def first_index_def
      confidence_of_def as_number_def Let_def)

text \<open>
  Claim C10. Reconciling a candidate sets its confidence to 0.9 and marks it as found
  on the marketplace; \<open>check_external_tokens\<close> does so for a candidate that is not in
  the token table and that the marketplace search finds. For a candidate whose
  confidence is 1.0, the confidence after reconciliation is 0.9, strictly lower; the
  mention update, where it completes, never lowers a confidence that is at most 1.0.
\<close>

theorem C10_reconcile_lowers_confidence:
  "confidence_of (reconcile token) = Inr 0.9
   \<and> getattr PotentialToken_columns (reconcile token) ''found_on_memepad'' = Inr (PBool True)
   \<and> (getattr PotentialToken_columns token ''name'' = Inr name \<and> \<not> jetton_exists name
        \<and> search_token name = Inr True
      \<longrightarrow> check_token jetton_exists search_token token
            = Inr (reconcile token, [SessionCommit]))
   \<and> (confidence_of token = Inr 1.0
      \<longrightarrow> confidence_of (reconcile token) = Inr 0.9 \<and> (0.9 :: real) < 1.0)
   \<and> (mention_existing now token = (Inr (), token') \<and> confidence_of token = Inr c \<and> c \<le> 1.0
      \<longrightarrow> confidence_of token' = Inr (min 1.0 (c + 0.1)) \<and> c \<le> min 1.0 (c + 0.1))"
proof -
  have a: "confidence_of (reconcile token) = Inr 0.9"
    by (simp add: reconcile_def confidence_of_setattr_same)
  have b: "getattr PotentialToken_columns (reconcile token) ''found_on_memepad''
             = Inr (PBool True)"
    by (simp add: reconcile_def getattr_setattr_same getattr_setattr_other)
  have c: "getattr PotentialToken_columns token ''name'' = Inr name \<and> \<not> jetton_exists name
        \<and> search_token name = Inr True
      \<longrightarrow> check_token jetton_exists search_token token
            = Inr (reconcile token, [SessionCommit])"
    by (simp add: check_token_def bind_err_def)
  have e: "mention_existing now token = (Inr (), token') \<and> confidence_of token = Inr c
        \<and> c \<le> 1.0
      \<longrightarrow> confidence_of token' = Inr (min 1.0 (c + 0.1)) \<and> c \<le> min 1.0 (c + 0.1)"
    using mention_existing_confidence [of now token token' c] by (auto simp: min_def)
  show ?thesis
    using a b c e by simp
qed

text \<open>
  Witness for C10: a candidate named FOO with the confidence 1.0 and a mention count,
  a token table without FOO and a marketplace search that finds it.
\<close>

theorem C10_witness:
  "getattr PotentialToken_columns full_token ''name'' = Inr (PStr ''FOO'')
   \<and> \<not> (\<lambda>name. False) (PStr ''FOO'')
   \<and> (\<lambda>name. Inr True :: py_error + bool) (PStr ''FOO'') = Inr True
   \<and> check_token (\<lambda>name. False) (\<lambda>name. Inr True) full_token
       = Inr (reconcile full_token, [SessionCommit])
   \<and> confidence_of full_token = Inr 1.0
   \<and> confidence_of (reconcile full_token) = Inr 0.9
   \<and> mention_existing 0 full_token
       = (Inr (), setattr (setattr (setattr full_token ''mention_count'' (PInt 8))
                    ''last_mentioned_at'' (PTime 0)) ''confidence_score'' (PFloat 1.0))
   \<and> confidence_of (setattr (setattr (setattr full_token ''mention_count'' (PInt 8))
                    ''last_mentioned_at'' (PTime 0)) ''confidence_score'' (PFloat 1.0))
       = Inr 1.0"
proof -
  have n: "getattr PotentialToken_columns full_token ''name'' = Inr (PStr ''FOO'')"
    by (simp add: getattr_def full_token_def)
  have f: "confidence_of full_token = Inr 1.0"
    by (simp add: confidence_of_def getattr_def full_token_def bind_err_def as_number_def)
  have g: "getattr PotentialToken_columns full_token ''mention_count'' = Inr (PInt 7)"
    by (simp add: getattr_def full_token_def)
  have m: "mention_existing 0 full_token
       = (Inr (), setattr (setattr (setattr full_token ''mention_count'' (PInt 8))
                    ''last_mentioned_at'' (PTime 0)) ''confidence_score'' (PFloat 1.0))"
    by (simp add: mention_existing_def g bind_err_def py_incr_def Let_def
          confidence_of_setattr_other f)
  from C10_reconcile_lowers_confidence
         [of full_token "PStr ''FOO''" "\<lambda>name. False" "\<lambda>name. Inr True" 0
             "setattr (setattr (setattr full_token ''mention_count'' (PInt 8))
                    ''last_mentioned_at'' (PTime 0)) ''confidence_score'' (PFloat 1.0)" "1.0"]
  show ?thesis
    using n f m by simp
qed

section \<open>Properties of the channel discovery\<close>

lemma add_channel_to_db_log:
  "w_log (snd (add_channel_to_db tg name src det w)) = w_log w"
  by (simp add: add_channel_to_db_def commit_def set_channels_def Let_def
      split: option.splits)

lemma register_found_log:
  "w_log (snd (register_found tg keyword results st)) = w_log (snd st)"
proof (induction tg keyword results st rule: register_found.induct)
  case (1 tg keyword st)
  then show ?case by simp
next
  case (2 tg keyword results st)
  then show ?case by simp
next
  case (3 tg keyword channel_name results found_channels w)
  show ?case
  proof (cases "channel_name = [] \<or> channel_name \<in> set found_channels")
    case True
    with 3(1) show ?thesis by simp
  next
    case False
    obtain channel_db w1 where
      a: "add_channel_to_db tg channel_name (Some ''keyword_search'')
            (Some (''keyword: '' @ keyword)) w = (channel_db, w1)"
      by (cases "add_channel_to_db tg channel_name (Some ''keyword_search'')
                   (Some (''keyword: '' @ keyword)) w")
    have l: "w_log w1 = w_log w"
      using add_channel_to_db_log [of tg channel_name "Some ''keyword_search''"
          "Some (''keyword: '' @ keyword)" w] a by simp
    show ?thesis
      using False 3(2) [OF False a [symmetric] refl refl] a l
      by (simp split: if_splits)
  qed
qed

lemma searches_append: "searches (xs @ ys) = searches xs @ searches ys"
  by (simp add: searches_def)

text \<open>
  Whatever the platform answers, the loop queries each keyword of its list once, in
  order.
\<close>

lemma search_keywords_log:
  "searches (w_log (snd (search_keywords tg kws (found, w)))) = searches (w_log w) @ kws"
proof (induction kws arbitrary: found w)
  case Nil
  then show ?case by simp
next
  case (Cons k kws)
  show ?case
  proof (cases "tg_search tg (w_log w) k")
    case (Chats results)
    obtain found' w1 where
      r: "register_found tg k results (found, emit (SearchGlobal k) w) = (found', w1)"
      by (cases "register_found tg k results (found, emit (SearchGlobal k) w)")
    have l: "w_log w1 = w_log w @ [SearchGlobal k]"
      using register_found_log [of tg k results "(found, emit (SearchGlobal k) w)"] r
      by (simp add: emit_def)
    show ?thesis
      using Chats r l Cons [of found' "emit (Sleep 2) w1"]
      by (simp add: emit_def searches_append) (simp add: searches_def)
  next
    case (FloodWait n)
    then show ?thesis
      using Cons [of found "emit (Sleep n) (emit (SearchGlobal k) w)"]
      by (simp add: emit_def searches_append) (simp add: searches_def)
  next
    case SearchError
    then show ?thesis
      using Cons [of found "emit (SearchGlobal k) w"]
      by (simp add: emit_def searches_append) (simp add: searches_def)
  qed
qed

text \<open>
  Claim C4, as the code has it. When the platform answers the search for a keyword
  with a rate limit, \<open>search_channels_by_keywords\<close> sleeps for the number of seconds
  the platform gave and then goes on with the remaining keywords: the sweep is not
  aborted, and the keyword is not queried again. On a connected spider every keyword of
  the given list is queried exactly once, in order, whatever the answers are.
\<close>

theorem C4_rate_limit_moves_on:
  "(tg_search tg (w_log w) keyword = FloodWait seconds
      \<longrightarrow> search_keywords tg (keyword # rest) (found, w) =
            search_keywords tg rest
              (found, w\<lparr>w_log := w_log w @ [SearchGlobal keyword, Sleep seconds]\<rparr>))
   \<and> (w_client w \<and> kws \<noteq> []
      \<longrightarrow> searches (w_log (snd (search_channels_by_keywords cfg tg (Some kws) w)))
            = searches (w_log w) @ kws)"
  by (simp add: emit_def search_channels_by_keywords_def search_keywords_log)

text \<open>
  Witness for C4: the platform that limits the first search, a connected spider with an
  empty log, and the keywords \<open>ton\<close> and \<open>jetton\<close>.
\<close>

theorem C4_witness:
  "tg_search throttling_telegram (w_log empty_world) ''ton'' = FloodWait 7
   \<and> search_keywords throttling_telegram [''ton'', ''jetton''] ([], empty_world) =
       search_keywords throttling_telegram [''jetton'']
         ([], empty_world\<lparr>w_log := w_log empty_world @ [SearchGlobal ''ton'', Sleep 7]\<rparr>)
   \<and> w_client empty_world \<and> [''ton'', ''jetton''] \<noteq> []
   \<and> searches (w_log (snd (search_channels_by_keywords CHANNEL_DISCOVERY throttling_telegram
                              (Some [''ton'', ''jetton'']) empty_world)))
       = searches (w_log empty_world) @ [''ton'', ''jetton'']"
proof -
  have h1: "tg_search throttling_telegram (w_log empty_world) ''ton'' = FloodWait 7"
    by (simp add: throttling_telegram_def empty_world_def searches_def)
  have h2: "w_client empty_world \<and> [''ton'', ''jetton''] \<noteq> []"
    by (simp add: empty_world_def)
  from C4_rate_limit_moves_on
         [of throttling_telegram empty_world "''ton''" 7 "[''jetton'']" "[]"
             "[''ton'', ''jetton'']" CHANNEL_DISCOVERY]
  show ?thesis
    using h1 h2 by simp
qed

text \<open>
  Counterexample to C4 as stated: the platform limits the first search only. The
  search for \<open>ton\<close> is answered with a wait of 7 seconds; the spider sleeps 7 seconds and
  queries \<open>jetton\<close>. The keyword \<open>ton\<close> is queried once and never again, although a second
  query would have been answered.
\<close>

theorem C4_counterexample:
  "search_channels_by_keywords CHANNEL_DISCOVERY throttling_telegram
       (Some [''ton'', ''jetton'']) empty_world
     = ([''ton_chat''],
        empty_world\<lparr>w_log := [SearchGlobal ''ton'', Sleep 7, SearchGlobal ''jetton'', Sleep 2]\<rparr>)
   \<and> tg_search throttling_telegram [SearchGlobal ''ton'', Sleep 7] ''ton''
     = Chats [Some ''ton_chat'']
   \<and> length (filter (\<lambda>k. k = ''ton'')
        (searches [SearchGlobal ''ton'', Sleep 7, SearchGlobal ''jetton'', Sleep 2])) = 1"
  by (simp add: search_channels_by_keywords_def empty_world_def throttling_telegram_def
      emit_def searches_def add_channel_to_db_def)

text \<open>
  With the cap under the key the routine reads, the gate works as claim C5 says:
  nothing happens once 50 channels are active, and the discovery pass (keyword search,
  then the sweep over the unscanned channels) runs otherwise.
\<close>

lemma discover_with_cap:
  "discover_new_channels capped_discovery factors tg extract_names notify now w =
     (Inr (), if 50 \<le> length (filter ch_is_active (db_channels (w_db w))) then w
              else snd (discovery_pass capped_discovery factors tg extract_names notify now w))"
  by (simp add: discover_new_channels_def discovery_body_def capped_discovery_def
      CHANNEL_DISCOVERY_def dict_item_def cfg_truthy_def cfg_num_def)

text \<open>
  Claim C5, evaluated on the code. \<open>CHANNEL_DISCOVERY\<close> has no key
  \<open>max_channels_total\<close> (config.py names the cap \<open>max_monitored_channels\<close>), so the
  comparison with the cap raises \<open>KeyError\<close>, the handler of \<open>discover_new_channels\<close>
  logs it and the function returns: whatever the number of active channels, also with
  none, no keyword is searched, no channel is registered or scanned, and the world is
  unchanged.
\<close>

theorem C5_discovery_never_proceeds:
  "discover_new_channels CHANNEL_DISCOVERY factors tg extract_names notify now w = (Inr (), w)
   \<and> fst (discovery_body CHANNEL_DISCOVERY factors tg extract_names notify now empty_world)
       = Inl KeyError
   \<and> length (filter ch_is_active (db_channels (w_db empty_world))) = 0"
  by (simp add: discover_new_channels_def discovery_body_def CHANNEL_DISCOVERY_def
      dict_item_def cfg_truthy_def empty_world_def)

section \<open>Properties of the profile fetch\<close>

lemma fold_update_nth:
  assumes "i < length results"
  shows "(fold (\<lambda>i results. results[i := Some (f i)]) schedule results) ! i
         = (if i \<in> set schedule then Some (f i) else results ! i)"
  using assms
proof (induction schedule arbitrary: results)
  case Nil
  then show ?case by simp
next
  case (Cons j schedule)
  have "i < length (results[j := Some (f j)])"
    using Cons.prems by simp
  from Cons.IH [OF this] show ?case
    using Cons.prems by (auto simp: nth_list_update)
qed

lemma fold_update_length:
  "length (fold (\<lambda>i results. results[i := Some (f i)]) schedule results) = length results"
  by (induction schedule arbitrary: results) simp_all

lemma list4:
  assumes "length xs = 4"
  shows "xs = [xs ! 0, xs ! 1, xs ! 2, xs ! 3]"
proof -
  from assms obtain a b c d where "xs = [a, b, c, d]"
    by (cases xs; cases "tl xs"; cases "tl (tl xs)"; cases "tl (tl (tl xs))") auto
  then show ?thesis by simp
qed

lemma gather_four:
  assumes "set schedule = {0, 1, 2, 3}"
  shows "gather schedule [t0, t1, t2, t3] web
         = [Some (t0 web), Some (t1 web), Some (t2 web), Some (t3 web)]"
proof -
  let ?f = "\<lambda>i. ([t0, t1, t2, t3] ! i) web"
  let ?r = "fold (\<lambda>i results. results[i := Some (?f i)]) schedule
              [None, None, None, None]"
  have l: "length ?r = 4"
    by (simp add: fold_update_length)
  have n: "\<And>i. i < 4 \<Longrightarrow> ?r ! i = Some (?f i)"
    using fold_update_nth [of _ "[None, None, None, None]" ?f schedule] assms by auto
  have "?r = [?r ! 0, ?r ! 1, ?r ! 2, ?r ! 3]"
    using l by (rule list4)
  also have "\<dots> = [Some (?f 0), Some (?f 1), Some (?f 2), Some (?f 3)]"
    using n [of 0] n [of 1] n [of 2] n [of 3] by simp
  finally show ?thesis
    by (simp add: gather_def)
qed

lemma complete_data_value:
  assumes "set schedule = {0, 1, 2, 3}"
  shows "get_complete_jetton_data schedule web short_name address =
           Some \<lparr>cd_details = fetch_jetton_details short_name web,
                 cd_reactions = fetch_reactions short_name web,
                 cd_transactions = fetch_transactions short_name web,
                 cd_stonfi_data = fetch_stonfi_data address web\<rparr>"
  by (simp add: get_complete_jetton_data_def gather_four [OF assms])

text \<open>
  Claim C7. \<open>get_complete_jetton_data\<close> starts its four retrievals together and
  collects them by position: in whatever order the four complete, it returns the
  dictionary whose four entries are the results of the four fetchers. A source that
  fails, answers with a status other than 200 or sends an unreadable body gives its own
  entry the empty value (\<open>None\<close> for the details and the liquidity data, \<open>{}\<close> for the
  reactions, \<open>[]\<close> for the transactions); a source that answers 200 gives its entry
  the data it sent (for the transactions, the \<open>transactions\<close> member of the object
  sent), whatever the other three sources do. Each entry depends on the outcome of its
  own source alone: two runs against sources that agree on one URL return the same entry
  for it. No fetcher raises, so the call always returns all four entries.
\<close>

theorem C7_partial_failure:
  assumes "set schedule = {0, 1, 2, 3}"
  shows "get_complete_jetton_data schedule web short_name address =
           Some \<lparr>cd_details = fetch_jetton_details short_name web,
                 cd_reactions = fetch_reactions short_name web,
                 cd_transactions = fetch_transactions short_name web,
                 cd_stonfi_data = fetch_stonfi_data address web\<rparr>
       \<and> (web (details_url short_name) = Failed
            \<or> (\<exists>body. web (details_url short_name) = Response status body \<and> status \<noteq> 200)
            \<or> web (details_url short_name) = Response 200 None
          \<longrightarrow> map_option cd_details
                (get_complete_jetton_data schedule web short_name address) = Some JNull)
       \<and> (web (reactions_url short_name) = Failed
            \<or> (\<exists>body. web (reactions_url short_name) = Response status body \<and> status \<noteq> 200)
            \<or> web (reactions_url short_name) = Response 200 None
          \<longrightarrow> map_option cd_reactions
                (get_complete_jetton_data schedule web short_name address) = Some (JObj []))
       \<and> (web (transactions_url short_name) = Failed
            \<or> (\<exists>body. web (transactions_url short_name) = Response status body \<and> status \<noteq> 200)
            \<or> web (transactions_url short_name) = Response 200 None
          \<longrightarrow> map_option cd_transactions
                (get_complete_jetton_data schedule web short_name address) = Some (JArr []))
       \<and> (web (stonfi_url address) = Failed
            \<or> (\<exists>body. web (stonfi_url address) = Response status body \<and> status \<noteq> 200)
            \<or> web (stonfi_url address) = Response 200 None
          \<longrightarrow> map_option cd_stonfi_data
                (get_complete_jetton_data schedule web short_name address) = Some JNull)
       \<and> (web (details_url short_name) = Response 200 (Some details)
          \<longrightarrow> map_option cd_details
                (get_complete_jetton_data schedule web short_name address) = Some details)
       \<and> (web (reactions_url short_name) = Response 200 (Some reactions)
          \<longrightarrow> map_option cd_reactions
                (get_complete_jetton_data schedule web short_name address) = Some reactions)
       \<and> (web (transactions_url short_name) = Response 200 (Some (JObj data))
          \<longrightarrow> map_option cd_transactions
                (get_complete_jetton_data schedule web short_name address)
              = Some (dict_get data ''transactions'' (JArr [])))
       \<and> (web (stonfi_url address) = Response 200 (Some stonfi_data)
          \<longrightarrow> map_option cd_stonfi_data
                (get_complete_jetton_data schedule web short_name address) = Some stonfi_data)
       \<and> (web' (details_url short_name) = web (details_url short_name)
          \<longrightarrow> map_option cd_details
                (get_complete_jetton_data schedule web' short_name address)
              = map_option cd_details
                  (get_complete_jetton_data schedule web short_name address))
       \<and> (web' (reactions_url short_name) = web (reactions_url short_name)
          \<longrightarrow> map_option cd_reactions
                (get_complete_jetton_data schedule web' short_name address)
              = map_option cd_reactions
                  (get_complete_jetton_data schedule web short_name address))
       \<and> (web' (transactions_url short_name) = web (transactions_url short_name)
          \<longrightarrow> map_option cd_transactions
                (get_complete_jetton_data schedule web' short_name address)
              = map_option cd_transactions
                  (get_complete_jetton_data schedule web short_name address))
       \<and> (web' (stonfi_url address) = web (stonfi_url address)
          \<longrightarrow> map_option cd_stonfi_data
                (get_complete_jetton_data schedule web' short_name address)
              = map_option cd_stonfi_data
                  (get_complete_jetton_data schedule web short_name address))"
proof -
  note g = complete_data_value [OF assms, of web short_name address]
  note g' = complete_data_value [OF assms, of web' short_name address]
  have failures:
    "web (details_url short_name) = Failed
       \<or> (\<exists>body. web (details_url short_name) = Response status body \<and> status \<noteq> 200)
       \<or> web (details_url short_name) = Response 200 None
     \<longrightarrow> fetch_jetton_details short_name web = JNull"
    "web (reactions_url short_name) = Failed
       \<or> (\<exists>body. web (reactions_url short_name) = Response status body \<and> status \<noteq> 200)
       \<or> web (reactions_url short_name) = Response 200 None
     \<longrightarrow> fetch_reactions short_name web = JObj []"
    "web (transactions_url short_name) = Failed
       \<or> (\<exists>body. web (transactions_url short_name) = Response status body \<and> status \<noteq> 200)
       \<or> web (transactions_url short_name) = Response 200 None
     \<longrightarrow> fetch_transactions short_name web = JArr []"
    "web (stonfi_url address) = Failed
       \<or> (\<exists>body. web (stonfi_url address) = Response status body \<and> status \<noteq> 200)
       \<or> web (stonfi_url address) = Response 200 None
     \<longrightarrow> fetch_stonfi_data address web = JNull"
    by (auto simp: fetch_jetton_details_def fetch_reactions_def fetch_transactions_def
        fetch_stonfi_data_def)
  have successes:
    "web (details_url short_name) = Response 200 (Some details)
     \<longrightarrow> fetch_jetton_details short_name web = details"
    "web (reactions_url short_name) = Response 200 (Some reactions)
     \<longrightarrow> fetch_reactions short_name web = reactions"
    "web (transactions_url short_name) = Response 200 (Some (JObj data))
     \<longrightarrow> fetch_transactions short_name web = dict_get data ''transactions'' (JArr [])"
    "web (stonfi_url address) = Response 200 (Some stonfi_data)
     \<longrightarrow> fetch_stonfi_data address web = stonfi_data"
    by (simp_all add: fetch_jetton_details_def fetch_reactions_def fetch_transactions_def
        fetch_stonfi_data_def)
  have own:
    "web' (details_url short_name) = web (details_url short_name)
     \<longrightarrow> fetch_jetton_details short_name web' = fetch_jetton_details short_name web"
    "web' (reactions_url short_name) = web (reactions_url short_name)
     \<longrightarrow> fetch_reactions short_name web' = fetch_reactions short_name web"
    "web' (transactions_url short_name) = web (transactions_url short_name)
     \<longrightarrow> fetch_transactions short_name web' = fetch_transactions short_name web"
    "web' (stonfi_url address) = web (stonfi_url address)
     \<longrightarrow> fetch_stonfi_data address web' = fetch_stonfi_data address web"
    by (simp_all add: fetch_jetton_details_def fetch_reactions_def fetch_transactions_def
        fetch_stonfi_data_def)
  show ?thesis
    unfolding g g' using failures successes own by simp
qed

text \<open>
  Witness for C7, with the tasks completing in the order 2, 0, 3, 1. Against
  \<open>failing_web\<close> the details and the liquidity source fail, the reactions source answers
  500 and the transactions arrive; \<open>reactions_only_web\<close> agrees with it on the details,
  the reactions and the liquidity data and fails on the transactions. Against a web
  where every source fails the transactions degrade. Against \<open>healthy_web\<close> every source
  answers 200, and it agrees with \<open>failing_web\<close> on the transactions.
\<close>

theorem C7_witness:
  "set [2, 0, 3, 1] = {0, 1, 2, 3 :: nat}
   \<and> failing_web (details_url ''foo'') = Failed
   \<and> failing_web (reactions_url ''foo'') = Response 500 None \<and> (500 :: nat) \<noteq> 200
   \<and> failing_web (stonfi_url ''EQA'') = Failed
   \<and> failing_web (transactions_url ''foo'')
       = Response 200 (Some (JObj [(''transactions'', JArr [JStr ''tx1''])]))
   \<and> map_option cd_details
         (get_complete_jetton_data [2, 0, 3, 1] failing_web ''foo'' ''EQA'') = Some JNull
   \<and> map_option cd_reactions
         (get_complete_jetton_data [2, 0, 3, 1] failing_web ''foo'' ''EQA'') = Some (JObj [])
   \<and> map_option cd_transactions
         (get_complete_jetton_data [2, 0, 3, 1] failing_web ''foo'' ''EQA'')
       = Some (JArr [JStr ''tx1''])
   \<and> map_option cd_stonfi_data
         (get_complete_jetton_data [2, 0, 3, 1] failing_web ''foo'' ''EQA'') = Some JNull
   \<and> reactions_only_web (details_url ''foo'') = failing_web (details_url ''foo'')
   \<and> reactions_only_web (reactions_url ''foo'') = failing_web (reactions_url ''foo'')
   \<and> reactions_only_web (stonfi_url ''EQA'') = failing_web (stonfi_url ''EQA'')
   \<and> reactions_only_web (transactions_url ''foo'') \<noteq> failing_web (transactions_url ''foo'')
   \<and> map_option cd_details
         (get_complete_jetton_data [2, 0, 3, 1] reactions_only_web ''foo'' ''EQA'')
       = map_option cd_details
           (get_complete_jetton_data [2, 0, 3, 1] failing_web ''foo'' ''EQA'')
   \<and> map_option cd_reactions
         (get_complete_jetton_data [2, 0, 3, 1] reactions_only_web ''foo'' ''EQA'')
       = map_option cd_reactions
           (get_complete_jetton_data [2, 0, 3, 1] failing_web ''foo'' ''EQA'')
   \<and> map_option cd_stonfi_data
         (get_complete_jetton_data [2, 0, 3, 1] reactions_only_web ''foo'' ''EQA'')
       = map_option cd_stonfi_data
           (get_complete_jetton_data [2, 0, 3, 1] failing_web ''foo'' ''EQA'')
   \<and> (\<lambda>url. Failed) (transactions_url ''foo'') = Failed
   \<and> map_option cd_transactions
         (get_complete_jetton_data [2, 0, 3, 1] (\<lambda>url. Failed) ''foo'' ''EQA'')
       = Some (JArr [])
   \<and> healthy_web (details_url ''foo'')
       = Response 200 (Some (JObj [(''ticker'', JStr ''FOO'')]))
   \<and> healthy_web (reactions_url ''foo'') = Response 200 (Some (JObj [(''fire'', JNum 10)]))
   \<and> healthy_web (stonfi_url ''EQA'')
       = Response 200 (Some (JObj [(''liquidity'', JObj [(''usd'', JNum 5000)])]))
   \<and> map_option cd_details
         (get_complete_jetton_data [2, 0, 3, 1] healthy_web ''foo'' ''EQA'')
       = Some (JObj [(''ticker'', JStr ''FOO'')])
   \<and> map_option cd_reactions
         (get_complete_jetton_data [2, 0, 3, 1] healthy_web ''foo'' ''EQA'')
       = Some (JObj [(''fire'', JNum 10)])
   \<and> map_option cd_stonfi_data
         (get_complete_jetton_data [2, 0, 3, 1] healthy_web ''foo'' ''EQA'')
       = Some (JObj [(''liquidity'', JObj [(''usd'', JNum 5000)])])
   \<and> failing_web (transactions_url ''foo'') = healthy_web (transactions_url ''foo'')
   \<and> map_option cd_transactions
         (get_complete_jetton_data [2, 0, 3, 1] failing_web ''foo'' ''EQA'')
       = map_option cd_transactions
           (get_complete_jetton_data [2, 0, 3, 1] healthy_web ''foo'' ''EQA'')"
proof -
  have s: "set [2, 0, 3, 1] = {0, 1, 2, 3 :: nat}"
    by auto
  have u: "failing_web (details_url ''foo'') = Failed"
    "failing_web (reactions_url ''foo'') = Response 500 None"
    "failing_web (stonfi_url ''EQA'') = Failed"
    "failing_web (transactions_url ''foo'')
       = Response 200 (Some (JObj [(''transactions'', JArr [JStr ''tx1''])]))"
    by (simp_all add: failing_web_def details_url_def reactions_url_def stonfi_url_def
        transactions_url_def MEMEPAD_BASE_URL_def REACTIONS_BASE_URL_def STONFI_BASE_URL_def)
  have r: "reactions_only_web (details_url ''foo'') = Failed"
    "reactions_only_web (reactions_url ''foo'') = Response 500 None"
    "reactions_only_web (stonfi_url ''EQA'') = Failed"
    "reactions_only_web (transactions_url ''foo'') = Failed"
    by (simp_all add: reactions_only_web_def details_url_def reactions_url_def stonfi_url_def
        transactions_url_def MEMEPAD_BASE_URL_def REACTIONS_BASE_URL_def STONFI_BASE_URL_def)
  have h: "healthy_web (details_url ''foo'')
       = Response 200 (Some (JObj [(''ticker'', JStr ''FOO'')]))"
    "healthy_web (reactions_url ''foo'') = Response 200 (Some (JObj [(''fire'', JNum 10)]))"
    "healthy_web (stonfi_url ''EQA'')
       = Response 200 (Some (JObj [(''liquidity'', JObj [(''usd'', JNum 5000)])]))"
    "healthy_web (transactions_url ''foo'')
       = Response 200 (Some (JObj [(''transactions'', JArr [JStr ''tx1''])]))"
    by (simp_all add: healthy_web_def details_url_def reactions_url_def stonfi_url_def
        transactions_url_def MEMEPAD_BASE_URL_def REACTIONS_BASE_URL_def STONFI_BASE_URL_def)
  note a = C7_partial_failure [OF s, where web = failing_web and short_name = "''foo''"
      and status = 500 and address = "''EQA''" and details = JNull and reactions = JNull
      and data = "[(''transactions'', JArr [JStr ''tx1''])]" and stonfi_data = JNull
      and web' = reactions_only_web]
  note c = C7_partial_failure [OF s, where web = "\<lambda>url. Failed" and short_name = "''foo''"
      and status = 500 and address = "''EQA''" and details = JNull and reactions = JNull
      and data = "[]" and stonfi_data = JNull and web' = failing_web]
  note d = C7_partial_failure [OF s, where web = healthy_web and short_name = "''foo''"
      and status = 500 and address = "''EQA''"
      and details = "JObj [(''ticker'', JStr ''FOO'')]"
      and reactions = "JObj [(''fire'', JNum 10)]"
      and data = "[(''transactions'', JArr [JStr ''tx1''])]"
      and stonfi_data = "JObj [(''liquidity'', JObj [(''usd'', JNum 5000)])]"
      and web' = failing_web]
  have fa: "map_option cd_details
         (get_complete_jetton_data [2, 0, 3, 1] failing_web ''foo'' ''EQA'') = Some JNull"
    "map_option cd_reactions
         (get_complete_jetton_data [2, 0, 3, 1] failing_web ''foo'' ''EQA'') = Some (JObj [])"
    "map_option cd_transactions
         (get_complete_jetton_data [2, 0, 3, 1] failing_web ''foo'' ''EQA'')
       = Some (JArr [JStr ''tx1''])"
    "map_option cd_stonfi_data
         (get_complete_jetton_data [2, 0, 3, 1] failing_web ''foo'' ''EQA'') = Some JNull"
    using a u by (auto simp: dict_get_def)
  have ro: "map_option cd_details
         (get_complete_jetton_data [2, 0, 3, 1] reactions_only_web ''foo'' ''EQA'')
       = map_option cd_details
           (get_complete_jetton_data [2, 0, 3, 1] failing_web ''foo'' ''EQA'')"
    "map_option cd_reactions
         (get_complete_jetton_data [2, 0, 3, 1] reactions_only_web ''foo'' ''EQA'')
       = map_option cd_reactions
           (get_complete_jetton_data [2, 0, 3, 1] failing_web ''foo'' ''EQA'')"
    "map_option cd_stonfi_data
         (get_complete_jetton_data [2, 0, 3, 1] reactions_only_web ''foo'' ''EQA'')
       = map_option cd_stonfi_data
           (get_complete_jetton_data [2, 0, 3, 1] failing_web ''foo'' ''EQA'')"
    using a u r by auto
  have af: "map_option cd_transactions
       (get_complete_jetton_data [2, 0, 3, 1] (\<lambda>url. Failed) ''foo'' ''EQA'') = Some (JArr [])"
    using c by auto
  have he: "map_option cd_details
         (get_complete_jetton_data [2, 0, 3, 1] healthy_web ''foo'' ''EQA'')
       = Some (JObj [(''ticker'', JStr ''FOO'')])"
    "map_option cd_reactions
         (get_complete_jetton_data [2, 0, 3, 1] healthy_web ''foo'' ''EQA'')
       = Some (JObj [(''fire'', JNum 10)])"
    "map_option cd_stonfi_data
         (get_complete_jetton_data [2, 0, 3, 1] healthy_web ''foo'' ''EQA'')
       = Some (JObj [(''liquidity'', JObj [(''usd'', JNum 5000)])])"
    using d h by auto
  have ht: "map_option cd_transactions
         (get_complete_jetton_data [2, 0, 3, 1] failing_web ''foo'' ''EQA'')
       = map_option cd_transactions
           (get_complete_jetton_data [2, 0, 3, 1] healthy_web ''foo'' ''EQA'')"
    using d u h by auto
  have e1: "(500 :: nat) \<noteq> 200"
    by simp
  have e2: "reactions_only_web (details_url ''foo'') = failing_web (details_url ''foo'')"
    "reactions_only_web (reactions_url ''foo'') = failing_web (reactions_url ''foo'')"
    "reactions_only_web (stonfi_url ''EQA'') = failing_web (stonfi_url ''EQA'')"
    "reactions_only_web (transactions_url ''foo'') \<noteq> failing_web (transactions_url ''foo'')"
    "failing_web (transactions_url ''foo'') = healthy_web (transactions_url ''foo'')"
    using u r h by simp_all
  show ?thesis
    by (intro conjI) (rule s u r h fa ro af he ht e1 e2 refl)+
qed

end
